theory Spec2Isabelle
  imports Main
begin

section \<open>Strings as Python handles them\<close>

text \<open>
  A Python \<open>str\<close> is modelled as a \<open>string\<close>, one \<open>char\<close> per character of the
  Python string. The helpers below are the string methods that \<open>miniagi.py\<close> calls:
  \<open>split("\n")\<close>, \<open>"\n".join\<close>, the substring test \<open>x in s\<close>, and the two
  \<open>replace\<close> calls of the main loop.
\<close>

definition nl :: char where
  "nl = CHR 0x0A"

definition backslash :: char where
  "backslash = CHR 0x5C"

definition backtick :: char where
  "backtick = CHR 0x60"

text \<open>\<open>s.split("\n")\<close>: the pieces between newlines; never the empty list.\<close>

fun split_nl :: "string \<Rightarrow> string list" where
  "split_nl [] = [[]]"
| "split_nl (x # xs) =
     (if x = nl then [] # split_nl xs
      else (case split_nl xs of
              [] \<Rightarrow> [[x]]
            | l # ls \<Rightarrow> (x # l) # ls))"

text \<open>\<open>"\n".join(ls)\<close>.\<close>

fun join_nl :: "string list \<Rightarrow> string" where
  "join_nl [] = []"
| "join_nl [l] = l"
| "join_nl (l # m # ls) = l @ nl # join_nl (m # ls)"

text \<open>\<open>s.startswith(p)\<close> and the substring test \<open>p in s\<close>.\<close>

definition startswith :: "string \<Rightarrow> string \<Rightarrow> bool" where
  "startswith p s = (take (length p) s = p)"

fun contains :: "string \<Rightarrow> string \<Rightarrow> bool" where
  "contains p [] = (p = [])"
| "contains p (x # xs) = (startswith p (x # xs) \<or> contains p xs)"

text \<open>
  \<open>arg.replace("```", "")\<close>: Python replaces the non-overlapping occurrences found from
  left to right.
\<close>

fun remove_fences :: "string \<Rightarrow> string" where
  "remove_fences (a # b # c # xs) =
     (if a = backtick \<and> b = backtick \<and> c = backtick then remove_fences xs
      else a # remove_fences (b # c # xs))"
| "remove_fences xs = xs"

text \<open>\<open>s.replace("\n", "\\n")\<close>: every newline becomes a backslash followed by \<open>n\<close>.\<close>

definition escape_nl :: "string \<Rightarrow> string" where
  "escape_nl s = concat (map (\<lambda>c. if c = nl then [backslash, CHR ''n''] else [c]) s)"

section \<open>The tag pattern\<close>

text \<open>
  \<open>PATTERN = r'<(r|c)>(.*?)</(r|c)>'\<close> and \<open>re.findall(PATTERN, line)\<close>. A match is an
  opening tag \<open><r>\<close> or \<open><c>\<close>, the shortest run of characters other than newline
  that is followed by a closing tag, and that closing tag \<open></r>\<close> or \<open></c>\<close>. With three
  groups, \<open>findall\<close> returns for each match the triple of its groups: the opening
  tag's letter, the body and the closing tag's letter. The scan goes from left to right;
  after a match it resumes behind the match, and where no match starts it moves on by
  one character.
\<close>

definition is_tag_char :: "char \<Rightarrow> bool" where
  "is_tag_char t = (t = CHR ''r'' \<or> t = CHR ''c'')"

fun open_tag :: "string \<Rightarrow> (char \<times> string) option" where
  "open_tag (a # t # b # rest) =
     (if a = CHR ''<'' \<and> is_tag_char t \<and> b = CHR ''>'' then Some (t, rest) else None)"
| "open_tag _ = None"

fun close_tag :: "string \<Rightarrow> (char \<times> string) option" where
  "close_tag (a # s # t # b # rest) =
     (if a = CHR ''<'' \<and> s = CHR ''/'' \<and> is_tag_char t \<and> b = CHR ''>''
      then Some (t, rest) else None)"
| "close_tag _ = None"

text \<open>
  \<open>(.*?)</(r|c)>\<close>: the lazy body tries the closing tag first and takes one more
  character (never a newline) only when that fails.
\<close>

fun lazy_body :: "string \<Rightarrow> (string \<times> char \<times> string) option" where
  "lazy_body [] = None"
| "lazy_body (x # xs) =
     (case close_tag (x # xs) of
        Some (t, rest) \<Rightarrow> Some ([], t, rest)
      | None \<Rightarrow>
          if x = nl then None
          else (case lazy_body xs of
                  None \<Rightarrow> None
                | Some (body, t, rest) \<Rightarrow> Some (x # body, t, rest)))"

lemma close_tag_shorter: "close_tag s = Some (t, rest) \<Longrightarrow> length rest < length s"
  by (induction s rule: close_tag.induct) (auto split: if_splits)

lemma open_tag_shorter: "open_tag s = Some (t, rest) \<Longrightarrow> length rest < length s"
  by (induction s rule: open_tag.induct) (auto split: if_splits)

lemma lazy_body_shorter: "lazy_body s = Some (body, t, rest) \<Longrightarrow> length rest < length s"
proof (induction s arbitrary: body)
  case Nil
  then show ?case by simp
next
  case (Cons x xs)
  show ?case
  proof (cases "close_tag (x # xs)")
    case (Some p)
    with Cons.prems show ?thesis
      by (cases p) (auto dest: close_tag_shorter)
  next
    case None
    with Cons.prems obtain b where "lazy_body xs = Some (b, t, rest)"
      by (auto split: if_splits option.splits)
    then have "length rest < length xs" by (rule Cons.IH)
    then show ?thesis by simp
  qed
qed

function findall :: "string \<Rightarrow> (char \<times> string \<times> char) list" where
  "findall [] = []"
| "findall (x # xs) =
     (case open_tag (x # xs) of
        None \<Rightarrow> findall xs
      | Some (t, after) \<Rightarrow>
          (case lazy_body after of
             None \<Rightarrow> findall xs
           | Some (body, t', rest) \<Rightarrow> (t, body, t') # findall rest))"
  by pat_completeness auto
termination
proof (relation "measure length")
  show "wf (measure length)" by simp
next
  fix x :: char and xs :: string
  show "(xs, x # xs) \<in> measure length" by simp
next
  fix x :: char and xs :: string and p t after
  show "(xs, x # xs) \<in> measure length" by simp
next
  fix x :: char and xs :: string and p :: "char \<times> string" and t after
    and q :: "string \<times> char \<times> string" and body r t' rest
  assume "open_tag (x # xs) = Some p" and "(t, after) = p"
    and "lazy_body after = Some q" and "(body, r) = q" and "(t', rest) = r"
  then have "length after < length (x # xs)" and "length rest < length after"
    by (auto dest: open_tag_shorter lazy_body_shorter)
  then show "(rest, x # xs) \<in> measure length" by simp
qed

section \<open>Values, collaborators and the loop's state\<close>

text \<open>
  The variable \<open>observation\<close> holds a \<open>str\<close> on every path but one: the web search
  stores what \<open>ddg\<close> returns, a list of result records or \<open>None\<close>.
\<close>

type_synonym search_hit = "(string \<times> string) list"

datatype pyval = PStr string | PNone | PList "search_hit list"

text \<open>The name Python gives the type of a value in a \<open>TypeError\<close>.\<close>

fun type_name :: "pyval \<Rightarrow> string" where
  "type_name (PStr _) = ''str''"
| "type_name PNone = ''NoneType''"
| "type_name (PList _) = ''list''"

text \<open>
  What \<open>agent.predict\<close> does: it returns the response text, raises
  \<open>openai.error.InvalidRequestError\<close>, or raises an exception of another class. An
  exception is represented by its message \<open>str(e)\<close>.
\<close>

datatype predict_result = Predicted string | InvalidRequestError string | OtherError string

text \<open>
  The settings read at start-up: the objective \<open>sys.argv[1]\<close>, \<open>platform.platform()\<close>,
  and the environment variables.
\<close>

record config =
  objective :: string
  operating_system :: string
  max_context_size :: int
  max_memory_item_size :: int
  DEBUG :: bool
  PROMPT_USER :: bool

text \<open>
  The variables of \<open>__main__\<close> that live from one iteration to the next. The agent is
  represented by its model name; its history store is seen through the \<open>Memorize\<close>
  events below.
\<close>

record loop_state =
  agent_model :: string
  thought :: string
  observation :: string
  summarized_history :: string

text \<open>
  The collaborators of one iteration, as functions of their arguments. A call that the
  loop wraps in \<open>try\<close> returns \<open>Inl msg\<close> when it raises an \<open>Exception\<close> with
  \<open>str(e) = msg\<close>. The calls \<open>agent.remember\<close>, \<open>summarizer.summarize\<close>,
  \<open>agent.memorize\<close> and \<open>input\<close> are taken to return.
  \<^item> \<open>remember\<close>: \<open>agent.remember(limit=32, sort_by_order=True, max_tokens=n)\<close>;
  \<^item> \<open>predict\<close>: \<open>agent.predict(prompt=p)\<close> of the agent with the given model name;
  \<^item> \<open>input\<close>: \<open>input(prompt)\<close>;
  \<^item> \<open>summarize\<close>: \<open>summarizer.summarize(text, n, instruction_hint=h)\<close>;
  \<^item> \<open>chunked_summarize\<close>: \<open>summarizer.chunked_summarize(text, n, instruction_hint=h)\<close>;
  \<^item> \<open>exec\<close>: \<open>exec(arg)\<close> under \<open>redirect_stdout\<close>, see \<open>exec_end\<close> below;
  \<^item> \<open>subprocess_run\<close>: \<open>subprocess.run(arg, capture_output=True, shell=True,
    check=False)\<close>, giving the decoded \<open>stdout\<close> and \<open>stderr\<close>;
  \<^item> \<open>ddg\<close>: \<open>ddg(arg, max_results=n)\<close>;
  \<^item> \<open>urlopen_text\<close>: \<open>urlopen(arg).read()\<close> passed through
    \<open>BeautifulSoup(html, features="lxml").get_text()\<close>;
  \<^item> \<open>open_read\<close>: \<open>open(arg, "r").read()\<close>.
\<close>

text \<open>
  \<open>exec(arg)\<close> runs the model's code in the globals of \<open>__main__\<close>. It ends in one of
  three ways: it returns, and the output captured by \<open>redirect_stdout\<close> is read; it
  raises an \<open>Exception\<close> with \<open>str(e) = msg\<close>; or it raises an exception that is not
  an \<open>Exception\<close> (the \<open>SystemExit\<close> of \<open>sys.exit()\<close>, \<open>KeyboardInterrupt\<close>), which
  \<open>except Exception\<close> does not catch. Whichever way it ends, the code may have assigned
  the variables of the loop: \<open>exec\<close> is given the state of the loop and the variable
  \<open>action\<close>, and returns them as the code leaves them. The settings of \<open>config\<close>, the
  collaborators and the functions are taken not to be rebound.
\<close>

datatype exec_end = Exec_returned string | Exec_raised string | Exec_escaped

record env =
  remember :: "int \<Rightarrow> string list"
  predict :: "string \<Rightarrow> string \<Rightarrow> predict_result"
  input :: "string \<Rightarrow> string"
  summarize :: "string \<Rightarrow> int \<Rightarrow> string \<Rightarrow> string"
  chunked_summarize :: "string \<Rightarrow> int \<Rightarrow> string \<Rightarrow> string + string"
  exec :: "string \<Rightarrow> loop_state \<times> string \<Rightarrow> exec_end \<times> loop_state \<times> string"
  subprocess_run :: "string \<Rightarrow> string + string \<times> string"
  ddg :: "string \<Rightarrow> nat \<Rightarrow> string + pyval"
  urlopen_text :: "string \<Rightarrow> string + string"
  open_read :: "string \<Rightarrow> string + string"

datatype handler = Execute_python | Execute_shell | Web_search | Web_scrape | Read_file

text \<open>
  What an iteration does to the outside, in order: console output (the colours and the
  spinner left out),
  a prompt shown by \<open>input\<close>, a call of \<open>summarizer.summarize\<close>, a call of
  \<open>agent.memorize\<close>, the construction of a new agent, and the start of a command
  handler.
\<close>

datatype event =
    Print string
  | PrintValue pyval
  | Ask string
  | Summarize string int string
  | Memorize string
  | NewAgent string
  | Run handler string

text \<open>
  How an iteration ends: the loop goes on; \<open>sys.exit(0)\<close>; an exception of the model
  request that the loop does not catch; or an exception of the executed code that is not
  an \<open>Exception\<close>, which ends the process as well.
\<close>

datatype outcome = Continue | Exit | Uncaught string | Aborted

section \<open>The prompt and the summary hints\<close>

definition PROMPT_steps :: string where
  \<open>PROMPT_steps =
     '' (e.g. "Find a recipe for chocolate chip cookies")\<newline>'' @
     ''\<newline>'' @
     ''You are working towards the objective on a step-by-step basis. Previous steps:\<newline>'' @
     ''\<newline>''\<close>

definition PROMPT_rules :: string where
  \<open>PROMPT_rules =
     ''\<newline>'' @
     ''\<newline>'' @
     ''Your task is to respond with the next action.\<newline>'' @
     ''Supported commands are: execute_python, execute_shell, read_file, web_search, web_scrape, talk_to_user, or done\<newline>'' @
     ''The mandatory action format is:\<newline>'' @
     ''\<newline>'' @
     ''<r>[YOUR_REASONING]</r><c>[COMMAND]</c>\<newline>'' @
     ''[ARGUMENT]\<newline>'' @
     ''\<newline>'' @
     ''ARGUMENT may have multiple lines if the argument is Python code.\<newline>'' @
     ''Use only non-interactive shell commands.\<newline>'' @
     ''web_scrape argument must be a single URL.\<newline>'' @
     ''Python code run with execute_python must end with an output "print" statement and should be well-commented.\<newline>'' @
     ''Send the "done" command if the objective was achieved in a previous command or if no further action is required.\<newline>'' @
     ''RESPOND WITH PRECISELY ONE THOUGHT/COMMAND/ARG COMBINATION.\<newline>'' @
     ''DO NOT CHAIN MULTIPLE COMMANDS.\<newline>'' @
     ''DO NOT INCLUDE EXTRA TEXT BEFORE OR AFTER THE COMMAND.\<newline>'' @
     ''DO NOT REPEAT PREVIOUSLY EXECUTED COMMANDS.\<newline>'' @
     ''\<newline>'' @
     ''Example actions:\<newline>'' @
     ''\<newline>'' @
     ''<r>Search for websites relevant to chocolate chip cookies recipe.</r><c>web_search</c>\<newline>'' @
     ''chocolate chip cookies recipe\<newline>'' @
     ''\<newline>'' @
     ''<r>Scrape information about chocolate chip cookies from the given URL.</r><c>web_scrape</c>\<newline>'' @
     ''https://example.com/chocolate-chip-cookies\<newline>'' @
     ''\<newline>'' @
     ''<r>I need to ask the user for guidance.</r><c>talk_to_user</c>\<newline>'' @
     ''What is the URL of a website with chocolate chip cookies recipes?\<newline>'' @
     ''\<newline>'' @
     ''<r>Write 'Hello, world!' to file</r><c>execute_python</c>\<newline>'' @
     ''# Opening file in write mode and writing 'Hello, world!' into it\<newline>'' @
     ''with open('hello_world.txt', 'w') as f:\<newline>'' @
     ''    f.write('Hello, world!')\<newline>'' @
     ''\<newline>'' @
     ''<r>The objective is complete.</r><c>done</c>\<newline>''\<close>

text \<open>\<open>PROMPT.format(context=context, objective=objective)\<close>.\<close>

definition PROMPT_format :: "config \<Rightarrow> string \<Rightarrow> string" where
  "PROMPT_format cfg context =
     ''You are an autonomous agent running on '' @ operating_system cfg @ ''.'' @
     ''\<newline>'' @ ''OBJECTIVE: '' @ objective cfg @ PROMPT_steps @ context @ PROMPT_rules"

definition SUMMARY_HINT :: string where
  "SUMMARY_HINT =
     ''Do your best to retain information necessary for the agent to perform its task.''"

text \<open>\<open>EXTRA_SUMMARY_HINT.format(summarizer_hint=h)\<close>.\<close>

definition EXTRA_SUMMARY_HINT :: "string \<Rightarrow> string" where
  "EXTRA_SUMMARY_HINT h =
     ''If the text contains information related to the topic: '' @ [CHR 0x27] @ h @
     [CHR 0x27] @ ''then include it. If not, write a standard summary.''"

definition update_hint :: string where
  "update_hint =
     ''Generate a new summary given the previous summary'' @
     ''of the agent's history and its last action. Be concise, use abbreviations.''"

section \<open>Updating the memory\<close>

text \<open>
  \<open>update_memory(_agent, _action, _observation, previous_summary)\<close> summarises the
  previous summary followed by the new record \<open>new_memory\<close>, stores the new record in
  the agent's history and returns the new summary. The result is paired with the two
  calls made.
\<close>

definition new_memory :: "string \<Rightarrow> string \<Rightarrow> string" where
  "new_memory action obs =
     ''ACTION'' @ [nl] @ action @ [nl] @ ''RESULT:'' @ [nl] @ obs @ [nl]"

definition update_memory ::
  "env \<Rightarrow> config \<Rightarrow> string \<Rightarrow> string \<Rightarrow> string \<Rightarrow> string \<times> event list" where
  "update_memory e cfg action obs previous_summary =
     (let text = previous_summary @ [nl] @ new_memory action obs;
          new_summary = summarize e text (max_memory_item_size cfg) update_hint
      in (new_summary,
          [Summarize text (max_memory_item_size cfg) update_hint,
           Memorize (new_memory action obs)]))"

section \<open>Parsing the response\<close>

text \<open>
  The body of the first \<open>try\<close> of the loop. \<open>matches[0][1]\<close> and \<open>matches[1][1]\<close>
  raise \<open>IndexError\<close> when the list is too short; \<open>thought\<close> is already assigned when
  the second one raises. The result says which way the block is left: by the exception
  (with the value \<open>thought\<close> then has), by \<open>sys.exit(0)\<close> for the command \<open>done\<close>, or at
  its end with \<open>thought\<close>, \<open>command\<close> and \<open>arg\<close>. The list without its last line is
  assigned to \<open>res_line\<close>, a variable that is not read; \<open>arg\<close> is joined from
  \<open>res_lines[1:]\<close>.
\<close>

datatype parsed = Malformed string | Finished string | Action string string string

definition content :: "char \<times> string \<times> char \<Rightarrow> string" where
  "content m = fst (snd m)"

definition parse_response :: "string \<Rightarrow> string list \<Rightarrow> parsed" where
  "parse_response old_thought res_lines =
     (case findall (hd res_lines) of
        [] \<Rightarrow> Malformed old_thought
      | [m0] \<Rightarrow> Malformed (content m0)
      | m0 # m1 # ms \<Rightarrow>
          (let th = content m0; command = content m1 in
           if command = ''done'' then Finished th
           else
             let res_line = (if contains ''done'' (last res_lines)
                             then Some (butlast res_lines) else None);
                 arg = join_nl (tl res_lines)
             in Action th command (remove_fences arg)))"

text \<open>
  \<open>_arg\<close>, and the rendering shared by \<open>action\<close> (with \<open>arg\<close>) and
  \<open>abbreviated_action\<close> (with \<open>_arg\<close>).
\<close>

definition abbreviated_arg :: "string \<Rightarrow> string" where
  "abbreviated_arg arg =
     (if length arg < 64 then escape_nl arg else escape_nl (take 64 arg @ ''...''))"

definition render_action :: "string \<Rightarrow> string \<Rightarrow> string \<Rightarrow> string" where
  \<open>render_action th command a =
     th @ [nl] @ ''Cmd: '' @ command @ '', Arg: "'' @ a @ ''"''\<close>

section \<open>Executing the command\<close>

text \<open>
  The chain of \<open>if\<close>/\<open>elif\<close> inside the second \<open>try\<close>. It ends with the value of
  \<open>observation\<close>, with a raised \<open>Exception\<close>, with \<open>sys.exit(0)\<close>, whose
  \<open>SystemExit\<close> the handler \<open>except Exception\<close> does not catch, or with an exception
  of the executed code that the handler does not catch either. Its argument \<open>vars\<close> is
  the state of the loop with the variable \<open>action\<close>; they come back as the branch leaves
  them, changed by \<open>exec\<close> only. A command that no branch tests leaves \<open>observation\<close>
  as it was.
\<close>

datatype 'a completion = Returned 'a | Raised string | SystemExit | Escaped

definition summary_hint :: "config \<Rightarrow> string" where
  "summary_hint cfg = SUMMARY_HINT @ EXTRA_SUMMARY_HINT (objective cfg)"

definition dispatch ::
  "env \<Rightarrow> config \<Rightarrow> string \<Rightarrow> string \<Rightarrow> loop_state \<times> string \<Rightarrow>
   pyval completion \<times> (loop_state \<times> string) \<times> event list" where
  "dispatch e cfg command arg vars =
     (if command = ''execute_python'' then
        (case exec e arg vars of
           (Exec_returned out, vars') \<Rightarrow> (Returned (PStr out), vars', [Run Execute_python arg])
         | (Exec_raised msg, vars') \<Rightarrow> (Raised msg, vars', [Run Execute_python arg])
         | (Exec_escaped, vars') \<Rightarrow> (Escaped, vars', [Run Execute_python arg]))
      else if command = ''execute_shell'' then
        (case subprocess_run e arg of
           Inl msg \<Rightarrow> (Raised msg, vars, [Run Execute_shell arg])
         | Inr (stdout, stderr) \<Rightarrow>
             (Returned (PStr (''STDOUT:'' @ [nl] @ stdout @ [nl] @ ''STDERR:'' @ [nl] @ stderr)),
              vars,
              Run Execute_shell arg #
              (if length stderr > 0 then [Print (''Execution error: '' @ stderr)] else [])))
      else if command = ''web_search'' then
        (case ddg e arg 5 of
           Inl msg \<Rightarrow> (Raised msg, vars, [Print ''SEARCH WEB'', Run Web_search arg])
         | Inr v \<Rightarrow>
             (Returned v, vars,
              [Print ''SEARCH WEB'', Run Web_search arg, PrintValue v] @
              (if v = PNone then [Print ''SEARCH FAILED''] else [])))
      else if command = ''web_scrape'' then
        (case urlopen_text e arg of
           Inl msg \<Rightarrow> (Raised msg, vars, [Run Web_scrape arg])
         | Inr page \<Rightarrow>
             (case chunked_summarize e page (max_memory_item_size cfg) (summary_hint cfg) of
                Inl msg \<Rightarrow> (Raised msg, vars, [Run Web_scrape arg])
              | Inr response_text \<Rightarrow> (Returned (PStr response_text), vars, [Run Web_scrape arg])))
      else if command = ''read_file'' then
        (case open_read e arg of
           Inl msg \<Rightarrow> (Raised msg, vars, [Run Read_file arg])
         | Inr file_text \<Rightarrow>
             (case chunked_summarize e file_text (max_memory_item_size cfg) (summary_hint cfg) of
                Inl msg \<Rightarrow> (Raised msg, vars, [Run Read_file arg])
              | Inr file_content \<Rightarrow> (Returned (PStr file_content), vars, [Run Read_file arg])))
      else if command = ''done'' then (SystemExit, vars, [Print ''Objective achieved.''])
      else (Returned (PStr (observation (fst vars))), vars, []))"

text \<open>
  \<open>"OBSERVATION: " + observation\<close> raises \<open>TypeError\<close> unless \<open>observation\<close> is a
  \<open>str\<close>; this is the message.
\<close>

definition type_error :: "pyval \<Rightarrow> string" where
  \<open>type_error v = ''can only concatenate str (not "'' @ type_name v @ ''") to str''\<close>

text \<open>
  The handler \<open>except Exception as e\<close> of the second \<open>try\<close>, for \<open>str(e) = msg\<close>.
  \<open>update_memory\<close> is called for its effects; what it returns is not assigned.
\<close>

definition on_exception ::
  "env \<Rightarrow> config \<Rightarrow> loop_state \<Rightarrow> string \<Rightarrow> string \<Rightarrow> loop_state \<times> event list" where
  "on_exception e cfg s action msg =
     (let obs = ''The command returned an error:'' @ [nl] @ msg @ [nl] in
      (s\<lparr>observation := obs\<rparr>,
       (if contains ''context length'' msg
        then [Print (msg @ [nl] @
                ''Try decreasing MAX_CONTEXT_SIZE, MAX_MEMORY_ITEM_SIZE and SUMMARIZER_CHUNK_SIZE.'')]
        else []) @
       [Print (''Execution error: '' @ msg)] @
       snd (update_memory e cfg action obs (summarized_history s))))"

text \<open>
  The second \<open>try\<close> with its handler. What follows the dispatch reads the variables as
  the dispatch left them.
\<close>

definition execute ::
  "env \<Rightarrow> config \<Rightarrow> loop_state \<Rightarrow> string \<Rightarrow> string \<Rightarrow> string \<Rightarrow>
   outcome \<times> loop_state \<times> event list" where
  "execute e cfg s command arg action =
     (case dispatch e cfg command arg (s, action) of
        (SystemExit, (s1, action1), evs) \<Rightarrow> (Exit, s1, evs)
      | (Escaped, (s1, action1), evs) \<Rightarrow> (Aborted, s1, evs)
      | (Raised msg, (s1, action1), evs) \<Rightarrow>
          (let (s', evs') = on_exception e cfg s1 action1 msg in (Continue, s', evs @ evs'))
      | (Returned (PStr obs), (s1, action1), evs) \<Rightarrow>
          (Continue, s1\<lparr>observation := obs\<rparr>,
           evs @ [Print (''OBSERVATION: '' @ obs)] @
           snd (update_memory e cfg action1 obs (summarized_history s1)))
      | (Returned v, (s1, action1), evs) \<Rightarrow>
          (let (s', evs') = on_exception e cfg s1 action1 (type_error v)
           in (Continue, s', evs @ evs')))"

section \<open>One iteration and the loop\<close>

text \<open>From \<open>_arg = ...\<close> to the end of the loop body: the parsed action is carried out.\<close>

definition confirm_prompt :: string where
  "confirm_prompt = ''Press enter to perform this action or abort by typing feedback: ''"

definition declined_observation :: string where
  "declined_observation =
     ''The user responded with: {user_input}'' @ [nl] @ ''Take this comment into consideration.''"

definition perform ::
  "config \<Rightarrow> env \<Rightarrow> loop_state \<Rightarrow> string \<Rightarrow> string \<Rightarrow> outcome \<times> loop_state \<times> event list" where
  "perform cfg e s command arg =
     (let action = render_action (thought s) command arg;
          abbreviated_action = render_action (thought s) command (abbreviated_arg arg)
      in
        if command = ''talk_to_user'' then
          (let user_input = input e ''Your response: '';
               obs = ''The user responded with: '' @ user_input @ ''.''
           in (Continue, s\<lparr>observation := obs\<rparr>,
               [Print (''MiniAGI: '' @ arg), Ask ''Your response: ''] @
               snd (update_memory e cfg abbreviated_action obs (summarized_history s))))
        else if PROMPT_USER cfg then
          (let user_input = input e confirm_prompt in
           if length user_input > 0 then
             (Continue, s\<lparr>observation := declined_observation\<rparr>,
              [Print (''MiniAGI: '' @ abbreviated_action), Ask confirm_prompt] @
              snd (update_memory e cfg abbreviated_action declined_observation
                     (summarized_history s)))
           else
             (let (out, s', evs) = execute e cfg s command arg action
              in (out, s', [Print (''MiniAGI: '' @ abbreviated_action), Ask confirm_prompt] @ evs)))
        else
          (let (out, s', evs) = execute e cfg s command arg action
           in (out, s', [Print (''MiniAGI: '' @ abbreviated_action)] @ evs)))"

text \<open>\<open>if DEBUG: print(f"label\ntext")\<close>.\<close>

definition debug_print :: "config \<Rightarrow> string \<Rightarrow> string \<Rightarrow> event list" where
  "debug_print cfg label text = (if DEBUG cfg then [Print (label @ [nl] @ text)] else [])"

text \<open>From the second \<open>if DEBUG\<close> on, for a response the model gave.\<close>

definition malformed_observation :: string where
  "malformed_observation =
     ''This command was formatted incorrectly. Use the correct syntax using the <r> and <c> tags.''"

definition respond ::
  "config \<Rightarrow> env \<Rightarrow> loop_state \<Rightarrow> string \<Rightarrow> outcome \<times> loop_state \<times> event list" where
  "respond cfg e s response_text =
     (let debug = debug_print cfg ''RAW RESPONSE:'' response_text;
          res_lines = split_nl response_text
      in
        case parse_response (thought s) res_lines of
          Malformed th \<Rightarrow>
            (Continue, s\<lparr>thought := th, observation := malformed_observation\<rparr>,
             debug @ [Print (''Unable to parse response. Retrying...'' @ [nl])] @
             snd (update_memory e cfg (hd res_lines) malformed_observation
                    (summarized_history s)))
        | Finished th \<Rightarrow>
            (Exit, s\<lparr>thought := th\<rparr>, debug @ [Print (''The agent concluded: '' @ th)])
        | Action th command arg \<Rightarrow>
            (let (out, s', evs) = perform cfg e (s\<lparr>thought := th\<rparr>) command arg
             in (out, s', debug @ evs)))"

text \<open>The context block built at the head of the loop body.\<close>

definition build_context :: "config \<Rightarrow> env \<Rightarrow> loop_state \<Rightarrow> string" where
  "build_context cfg e s =
     (let action_buffer = join_nl (remember e (max_context_size cfg))
      in ''HISTORY'' @ [nl] @ summarized_history s @ [nl] @
         ''PREV ACTIONS:'' @ [nl] @ action_buffer)"

text \<open>The body of \<open>while True\<close>.\<close>

definition step :: "config \<Rightarrow> env \<Rightarrow> loop_state \<Rightarrow> outcome \<times> loop_state \<times> event list" where
  "step cfg e s =
     (let context = build_context cfg e s;
          debug = debug_print cfg ''CONTEXT:'' context
      in
        case predict e (agent_model s) (PROMPT_format cfg context) of
          InvalidRequestError msg \<Rightarrow>
            if contains ''gpt-4'' msg then
              (Continue, s\<lparr>agent_model := ''gpt-3.5-turbo''\<rparr>,
               debug @
               [Print ''Prompting the gpt-4 model failed. Falling back to gpt-3.5-turbo'',
                NewAgent ''gpt-3.5-turbo''])
            else (Exit, s, debug @ [Print (''Error accessing the OpenAI API: '' @ msg)])
        | OtherError msg \<Rightarrow> (Uncaught msg, s, debug)
        | Predicted response_text \<Rightarrow>
            (let (out, s', evs) = respond cfg e s response_text in (out, s', debug @ evs)))"

text \<open>
  The loop, run against the collaborators of its successive iterations. It stops at the
  first iteration that does not continue; when the list is used up the loop is still
  running.
\<close>

definition initial_state :: "string \<Rightarrow> loop_state" where
  "initial_state model =
     \<lparr>agent_model = model, thought = [], observation = [], summarized_history = []\<rparr>"

fun run :: "config \<Rightarrow> env list \<Rightarrow> loop_state \<Rightarrow> outcome \<times> loop_state \<times> event list" where
  "run cfg [] s = (Continue, s, [])"
| "run cfg (e # es) s =
     (case step cfg e s of
        (Continue, s', evs) \<Rightarrow>
          (let (out, s'', evs') = run cfg es s' in (out, s'', evs @ evs'))
      | (out, s', evs) \<Rightarrow> (out, s', evs))"

text \<open>The calls that touch the memory, and the handler starts, among the events.\<close>

fun is_memory_event :: "event \<Rightarrow> bool" where
  "is_memory_event (Summarize _ _ _) = True"
| "is_memory_event (Memorize _) = True"
| "is_memory_event _ = False"

fun is_run_event :: "event \<Rightarrow> bool" where
  "is_run_event (Run _ _) = True"
| "is_run_event _ = False"

fun memorized :: "event list \<Rightarrow> string list" where
  "memorized [] = []"
| "memorized (Memorize m # evs) = m # memorized evs"
| "memorized (_ # evs) = memorized evs"

section \<open>Vocabulary of the statements\<close>

text \<open>
  \<open>tagless\<close>: a text with no newline in which no closing tag starts. \<open>no_open\<close>: a text
  in which no opening tag starts. \<open>tagged a X b\<close>: the text \<open>X\<close> between the opening tag
  of letter \<open>a\<close> and the closing tag of letter \<open>b\<close>. \<open>known_commands\<close>: the seven
  commands the prompt lists. \<open>exec_keeps_summary\<close>: whatever code \<open>exec\<close> is given, it
  does not assign \<open>summarized_history\<close>.
\<close>

fun tagless :: "string \<Rightarrow> bool" where
  "tagless [] = True"
| "tagless (x # xs) = (x \<noteq> nl \<and> close_tag (x # xs) = None \<and> tagless xs)"

fun no_open :: "string \<Rightarrow> bool" where
  "no_open [] = True"
| "no_open (x # xs) = (open_tag (x # xs) = None \<and> no_open xs)"

definition tagged :: "char \<Rightarrow> string \<Rightarrow> char \<Rightarrow> string" where
  "tagged a X b = CHR ''<'' # a # CHR ''>'' # X @ [CHR ''<'', CHR ''/'', b, CHR ''>'']"

definition exec_keeps_summary :: "env \<Rightarrow> bool" where
  "exec_keeps_summary e =
     (\<forall>a vars. summarized_history (fst (snd (exec e a vars))) = summarized_history (fst vars))"

definition known_commands :: "string list" where
  "known_commands =
     [''execute_python'', ''execute_shell'', ''read_file'', ''web_search'', ''web_scrape'',
      ''talk_to_user'', ''done'']"

section \<open>Collaborators for the concrete runs\<close>

text \<open>
  A configuration and a family of collaborators on which the theorems below are
  instantiated: the model answers \<open>answer\<close>, the user types \<open>typed\<close>, the web search
  returns \<open>found\<close>, and the summarizer always answers \<open>S\<close>.
\<close>

definition example_config :: "bool \<Rightarrow> config" where
  "example_config ask =
     \<lparr>objective = ''list the files'', operating_system = ''Linux'', max_context_size = 4000,
      max_memory_item_size = 2000, DEBUG = False, PROMPT_USER = ask\<rparr>"

definition example_env :: "predict_result \<Rightarrow> string \<Rightarrow> pyval \<Rightarrow> env" where
  "example_env answer typed found =
     \<lparr>remember = (\<lambda>_. []), predict = (\<lambda>_ _. answer), input = (\<lambda>_. typed),
      summarize = (\<lambda>_ _ _. ''S''), chunked_summarize = (\<lambda>t _ _. Inr t),
      exec = (\<lambda>_ vars. (Exec_returned [], vars)), subprocess_run = (\<lambda>_. Inr (''ok'', [])),
      ddg = (\<lambda>_ _. Inr found), urlopen_text = (\<lambda>_. Inr ''page''),
      open_read = (\<lambda>_. Inl ''No such file'')\<rparr>"

lemma example_env_predict: "predict (example_env a t f) m p = a"
  by (simp add: example_env_def)

lemma example_env_input: "input (example_env a t f) p = t"
  by (simp add: example_env_def)

lemma example_env_summarize: "summarize (example_env a t f) x n h = ''S''"
  by (simp add: example_env_def)

lemma example_env_keeps_summary: "exec_keeps_summary (example_env a t f)"
  by (simp add: exec_keeps_summary_def example_env_def)

lemma example_env_ddg: "ddg (example_env a t f) q n = Inr f"
  by (simp add: example_env_def)

lemma example_config_simps:
  "DEBUG (example_config ask) = False"
  "PROMPT_USER (example_config ask) = ask"
  "max_memory_item_size (example_config ask) = 2000"
  by (simp_all add: example_config_def)

section \<open>Basic facts\<close>

lemma split_nl_not_Nil: "split_nl s \<noteq> []"
  by (induction s) (auto split: list.splits)

lemma update_memory_events:
  "snd (update_memory e cfg a ob p) =
     [Summarize (p @ [nl] @ new_memory a ob) (max_memory_item_size cfg) update_hint,
      Memorize (new_memory a ob)]"
  by (simp add: update_memory_def Let_def)

lemma debug_print_quiet:
  "filter is_memory_event (debug_print cfg l t) = []"
  "filter is_run_event (debug_print cfg l t) = []"
  "memorized (debug_print cfg l t) = []"
  by (simp_all add: debug_print_def)

lemma step_Predicted:
  assumes "predict e (agent_model s) (PROMPT_format cfg (build_context cfg e s)) = Predicted r"
  shows "step cfg e s =
     (case respond cfg e s r of
        (out, s', evs) \<Rightarrow> (out, s', debug_print cfg ''CONTEXT:'' (build_context cfg e s) @ evs))"
  using assms by (simp add: step_def Let_def)

lemma respond_Finished:
  assumes "parse_response (thought s) (split_nl r) = Finished th"
  shows "respond cfg e s r =
     (Exit, s\<lparr>thought := th\<rparr>,
      debug_print cfg ''RAW RESPONSE:'' r @ [Print (''The agent concluded: '' @ th)])"
  using assms by (simp add: respond_def Let_def)

lemma parse_response_done:
  assumes "findall (hd res_lines) = m0 # m1 # ms" and "content m1 = ''done''"
  shows "parse_response th res_lines = Finished (content m0)"
  using assms by (simp add: parse_response_def Let_def)

subsection \<open>The pattern on tagged text\<close>

lemma close_tag_append:
  assumes "close_tag (x # xs) = None"
  shows "close_tag (x # xs @ CHR ''<'' # CHR ''/'' # b # CHR ''>'' # rest) = None"
proof (cases xs)
  case Nil
  then show ?thesis by simp
next
  case (Cons y ys)
  note xs = this
  show ?thesis
  proof (cases ys)
    case Nil
    with xs show ?thesis by simp
  next
    case (Cons z zs)
    with xs assms show ?thesis by (cases zs) auto
  qed
qed

lemma lazy_body_tagless:
  assumes "tagless X" and "is_tag_char b"
  shows "lazy_body (X @ CHR ''<'' # CHR ''/'' # b # CHR ''>'' # rest) = Some (X, b, rest)"
  using assms
proof (induction X)
  case Nil
  then show ?case by simp
next
  case (Cons x xs)
  then have "close_tag (x # xs @ CHR ''<'' # CHR ''/'' # b # CHR ''>'' # rest) = None"
    by (simp add: close_tag_append)
  moreover have "lazy_body (xs @ CHR ''<'' # CHR ''/'' # b # CHR ''>'' # rest) = Some (xs, b, rest)"
    using Cons by simp
  moreover have "x \<noteq> nl" using Cons.prems by simp
  ultimately show ?case by simp
qed

lemma open_tag_append:
  assumes "open_tag (x # xs) = None"
  shows "open_tag (x # xs @ CHR ''<'' # rest) = None"
proof (cases xs)
  case Nil
  then show ?thesis by (cases rest) (simp_all add: is_tag_char_def)
next
  case (Cons y ys)
  with assms show ?thesis by (cases ys) auto
qed

lemma findall_no_open:
  assumes "no_open P"
  shows "findall (P @ CHR ''<'' # rest) = findall (CHR ''<'' # rest)"
  using assms
proof (induction P)
  case Nil
  then show ?case by simp
next
  case (Cons x xs)
  then have "open_tag (x # xs @ CHR ''<'' # rest) = None"
    by (simp add: open_tag_append)
  then have "findall (x # xs @ CHR ''<'' # rest) = findall (xs @ CHR ''<'' # rest)"
    by simp
  with Cons show ?case by (simp del: findall.simps)
qed

lemma findall_tagged:
  assumes "is_tag_char a" and "is_tag_char b" and "tagless X"
  shows "findall (tagged a X b @ rest) = (a, X, b) # findall rest"
proof -
  have "lazy_body (X @ CHR ''<'' # CHR ''/'' # b # CHR ''>'' # rest) = Some (X, b, rest)"
    using assms(3,2) by (rule lazy_body_tagless)
  with assms(1) show ?thesis by (simp add: tagged_def)
qed

lemma tagged_Cons: "tagged a X b @ rest = CHR ''<'' # tl (tagged a X b @ rest)"
  by (simp add: tagged_def)

lemma findall_two_tags:
  assumes "is_tag_char a" "is_tag_char b" "is_tag_char c" "is_tag_char d"
    and "no_open P" "no_open M" "tagless X" "tagless Y"
  shows "findall (P @ tagged a X b @ M @ tagged c Y d @ Z) = (a, X, b) # (c, Y, d) # findall Z"
proof -
  have "findall (P @ tagged a X b @ M @ tagged c Y d @ Z) = findall (tagged a X b @ M @ tagged c Y d @ Z)"
    using findall_no_open [OF assms(5)] by (subst (1 2) tagged_Cons) simp
  also have "\<dots> = (a, X, b) # findall (M @ tagged c Y d @ Z)"
    using assms by (simp add: findall_tagged)
  also have "findall (M @ tagged c Y d @ Z) = findall (tagged c Y d @ Z)"
    using findall_no_open [OF assms(6)] by (subst (1 2) tagged_Cons) simp
  also have "\<dots> = (c, Y, d) # findall Z"
    using assms by (simp add: findall_tagged)
  finally show ?thesis .
qed

subsection \<open>The paths of an iteration\<close>

lemma parse_response_Action:
  assumes "findall (hd res_lines) = m0 # m1 # ms" and "content m1 \<noteq> ''done''"
  shows "parse_response th res_lines =
           Action (content m0) (content m1) (remove_fences (join_nl (tl res_lines)))"
  using assms by (simp add: parse_response_def Let_def)


lemma parse_Action_not_done:
  assumes "parse_response th res_lines = Action t c a"
  shows "c \<noteq> ''done''"
  using assms
  by (auto simp: parse_response_def Let_def split: list.splits if_splits)

lemma respond_Malformed:
  assumes "parse_response (thought s) (split_nl r) = Malformed th"
  shows "respond cfg e s r =
     (Continue, s\<lparr>thought := th, observation := malformed_observation\<rparr>,
      debug_print cfg ''RAW RESPONSE:'' r @
      [Print (''Unable to parse response. Retrying...'' @ [nl]),
       Summarize (summarized_history s @ [nl] @ new_memory (hd (split_nl r)) malformed_observation)
         (max_memory_item_size cfg) update_hint,
       Memorize (new_memory (hd (split_nl r)) malformed_observation)])"
  using assms by (simp add: respond_def Let_def update_memory_events)

lemma respond_Action:
  assumes "parse_response (thought s) (split_nl r) = Action th c a"
  shows "respond cfg e s r =
     (case perform cfg e (s\<lparr>thought := th\<rparr>) c a of
        (out, s', evs) \<Rightarrow> (out, s', debug_print cfg ''RAW RESPONSE:'' r @ evs))"
  using assms by (simp add: respond_def Let_def)

lemma perform_talk:
  "perform cfg e s ''talk_to_user'' a =
     (Continue, s\<lparr>observation := ''The user responded with: '' @ input e ''Your response: '' @ ''.''\<rparr>,
      [Print (''MiniAGI: '' @ a), Ask ''Your response: '',
       Summarize (summarized_history s @ [nl] @
                  new_memory (render_action (thought s) ''talk_to_user'' (abbreviated_arg a))
                    (''The user responded with: '' @ input e ''Your response: '' @ ''.''))
         (max_memory_item_size cfg) update_hint,
       Memorize (new_memory (render_action (thought s) ''talk_to_user'' (abbreviated_arg a))
                   (''The user responded with: '' @ input e ''Your response: '' @ ''.''))])"
  by (simp add: perform_def Let_def update_memory_events)

lemma perform_declined:
  assumes "c \<noteq> ''talk_to_user''" and "PROMPT_USER cfg" and "input e confirm_prompt \<noteq> []"
  shows "perform cfg e s c a =
     (Continue, s\<lparr>observation := declined_observation\<rparr>,
      [Print (''MiniAGI: '' @ render_action (thought s) c (abbreviated_arg a)), Ask confirm_prompt,
       Summarize (summarized_history s @ [nl] @
                  new_memory (render_action (thought s) c (abbreviated_arg a)) declined_observation)
         (max_memory_item_size cfg) update_hint,
       Memorize (new_memory (render_action (thought s) c (abbreviated_arg a)) declined_observation)])"
  using assms by (simp add: perform_def Let_def update_memory_events)

lemma perform_executed:
  assumes "c \<noteq> ''talk_to_user''" and "\<not> PROMPT_USER cfg \<or> input e confirm_prompt = []"
  shows "perform cfg e s c a =
     (case execute e cfg s c a (render_action (thought s) c a) of
        (out, s', evs) \<Rightarrow>
          (out, s',
           Print (''MiniAGI: '' @ render_action (thought s) c (abbreviated_arg a)) #
           (if PROMPT_USER cfg then [Ask confirm_prompt] else []) @ evs))"
  using assms by (auto simp: perform_def Let_def split: prod.splits)

lemma on_exception_eq:
  "on_exception e cfg s action msg =
     (s\<lparr>observation := ''The command returned an error:'' @ [nl] @ msg @ [nl]\<rparr>,
      (if contains ''context length'' msg
       then [Print (msg @ [nl] @
               ''Try decreasing MAX_CONTEXT_SIZE, MAX_MEMORY_ITEM_SIZE and SUMMARIZER_CHUNK_SIZE.'')]
       else []) @
      [Print (''Execution error: '' @ msg),
       Summarize (summarized_history s @ [nl] @
                  new_memory action (''The command returned an error:'' @ [nl] @ msg @ [nl]))
         (max_memory_item_size cfg) update_hint,
       Memorize (new_memory action (''The command returned an error:'' @ [nl] @ msg @ [nl]))])"
  by (simp add: on_exception_def Let_def update_memory_events)

lemma execute_Returned_str:
  assumes "dispatch e cfg c a (s, action) = (Returned (PStr ob), (s1, action1), evs)"
  shows "execute e cfg s c a action =
     (Continue, s1\<lparr>observation := ob\<rparr>,
      evs @ [Print (''OBSERVATION: '' @ ob),
             Summarize (summarized_history s1 @ [nl] @ new_memory action1 ob)
               (max_memory_item_size cfg) update_hint,
             Memorize (new_memory action1 ob)])"
  using assms by (simp add: execute_def update_memory_events)

lemma execute_Returned_other:
  assumes "dispatch e cfg c a (s, action) = (Returned v, (s1, action1), evs)"
    and "v = PNone \<or> v = PList l"
  shows "execute e cfg s c a action =
     (Continue, fst (on_exception e cfg s1 action1 (type_error v)),
      evs @ snd (on_exception e cfg s1 action1 (type_error v)))"
  using assms by (auto simp: execute_def split: prod.splits)

lemma execute_Raised:
  assumes "dispatch e cfg c a (s, action) = (Raised msg, (s1, action1), evs)"
  shows "execute e cfg s c a action =
     (Continue, fst (on_exception e cfg s1 action1 msg),
      evs @ snd (on_exception e cfg s1 action1 msg))"
  using assms by (auto simp: execute_def split: prod.splits)

lemma execute_Escaped:
  assumes "dispatch e cfg c a (s, action) = (Escaped, (s1, action1), evs)"
  shows "execute e cfg s c a action = (Aborted, s1, evs)"
  using assms by (simp add: execute_def)

lemma execute_python_returned:
  assumes "exec e a (s, action) = (Exec_returned out, s1, action1)"
  shows "execute e cfg s ''execute_python'' a action =
     (Continue, s1\<lparr>observation := out\<rparr>,
      [Run Execute_python a, Print (''OBSERVATION: '' @ out),
       Summarize (summarized_history s1 @ [nl] @ new_memory action1 out)
         (max_memory_item_size cfg) update_hint,
       Memorize (new_memory action1 out)])"
proof -
  have "dispatch e cfg ''execute_python'' a (s, action) =
          (Returned (PStr out), (s1, action1), [Run Execute_python a])"
    using assms by (simp add: dispatch_def)
  from execute_Returned_str [OF this] show ?thesis by simp
qed

lemma execute_python_escaped:
  assumes "exec e a (s, action) = (Exec_escaped, s1, action1)"
  shows "execute e cfg s ''execute_python'' a action = (Aborted, s1, [Run Execute_python a])"
proof -
  have "dispatch e cfg ''execute_python'' a (s, action) =
          (Escaped, (s1, action1), [Run Execute_python a])"
    using assms by (simp add: dispatch_def)
  then show ?thesis by (rule execute_Escaped)
qed

lemma dispatch_unknown:
  assumes "c \<notin> set known_commands"
  shows "dispatch e cfg c a vars = (Returned (PStr (observation (fst vars))), vars, [])"
  using assms by (simp add: dispatch_def known_commands_def)

lemma dispatch_quiet:
  "memorized (snd (snd (dispatch e cfg c a vars))) = []"
  "filter is_memory_event (snd (snd (dispatch e cfg c a vars))) = []"
  by (simp_all add: dispatch_def split: sum.splits prod.splits exec_end.splits)

lemma dispatch_SystemExit:
  assumes "fst (dispatch e cfg c a vars) = SystemExit"
  shows "c = ''done''"
  using assms
  by (auto simp: dispatch_def split: if_splits sum.splits prod.splits exec_end.splits)

lemma dispatch_Escaped:
  assumes "fst (dispatch e cfg c a vars) = Escaped"
  shows "c = ''execute_python''"
  using assms
  by (auto simp: dispatch_def split: if_splits sum.splits prod.splits exec_end.splits)

lemma dispatch_keeps_vars:
  assumes "c \<noteq> ''execute_python''"
  shows "fst (snd (dispatch e cfg c a vars)) = vars"
  using assms by (simp add: dispatch_def split: sum.splits prod.splits)

lemma dispatch_exec_vars:
  "fst (snd (dispatch e cfg ''execute_python'' a vars)) = snd (exec e a vars)"
  by (simp add: dispatch_def split: prod.splits exec_end.splits)

lemma dispatch_action:
  "snd (fst (snd (dispatch e cfg c a (s, action)))) =
     (if c = ''execute_python'' then snd (snd (exec e a (s, action))) else action)"
  by (simp add: dispatch_keeps_vars dispatch_exec_vars)

lemma run_Continue:
  assumes "step cfg e s = (Continue, s', evs)"
  shows "run cfg (e # es) s =
     (case run cfg es s' of (out, s'', evs') \<Rightarrow> (out, s'', evs @ evs'))"
  using assms by simp

lemma run_stop:
  assumes "step cfg e s = (out, s', evs)" and "out \<noteq> Continue"
  shows "run cfg (e # es) s = (out, s', evs)"
  using assms by (cases out) simp_all

section \<open>The command \<open>done\<close>\<close>

text \<open>
  Claim C4. Whenever the parsed command is \<open>done\<close>, that is, whenever the pattern
  matches the first line of the response at least twice and the body of the second match
  is \<open>done\<close>, the iteration prints \<open>The agent concluded:\<close> followed by the reasoning
  (the body of the first match) and ends in \<open>sys.exit(0)\<close>. Apart from the two optional
  debug lines nothing else happens: no handler is started, neither the summarizer nor
  \<open>agent.memorize\<close> is called, and the running summary is what it was.
\<close>

theorem done_exits_before_memory:
  assumes "predict e (agent_model s) (PROMPT_format cfg (build_context cfg e s)) = Predicted r"
    and "findall (hd (split_nl r)) = m0 # m1 # ms"
    and "content m1 = ''done''"
  shows "step cfg e s =
           (Exit, s\<lparr>thought := content m0\<rparr>,
            debug_print cfg ''CONTEXT:'' (build_context cfg e s) @
            debug_print cfg ''RAW RESPONSE:'' r @
            [Print (''The agent concluded: '' @ content m0)])
         \<and> filter is_memory_event (snd (snd (step cfg e s))) = []
         \<and> filter is_run_event (snd (snd (step cfg e s))) = []
         \<and> summarized_history (fst (snd (step cfg e s))) = summarized_history s"
proof -
  have "parse_response (thought s) (split_nl r) = Finished (content m0)"
    using assms(2,3) by (rule parse_response_done)
  then have "respond cfg e s r =
     (Exit, s\<lparr>thought := content m0\<rparr>,
      debug_print cfg ''RAW RESPONSE:'' r @ [Print (''The agent concluded: '' @ content m0)])"
    by (rule respond_Finished)
  with step_Predicted [OF assms(1)] have eq: "step cfg e s =
           (Exit, s\<lparr>thought := content m0\<rparr>,
            debug_print cfg ''CONTEXT:'' (build_context cfg e s) @
            debug_print cfg ''RAW RESPONSE:'' r @
            [Print (''The agent concluded: '' @ content m0)])"
    by simp
  show ?thesis
    unfolding eq by (simp add: debug_print_quiet)
qed

text \<open>Scenario B of the specification: \<open><r>done</r><c>done</c>\<close>, then \<open>Objective complete\<close>.\<close>

lemma scenario_B_first_line:
  "hd (split_nl (''<r>done</r><c>done</c>'' @ [nl] @ ''Objective complete'')) =
     ''<r>done</r><c>done</c>''"
  by code_simp

lemma scenario_B_matches:
  "findall ''<r>done</r><c>done</c>'' =
     [(CHR ''r'', ''done'', CHR ''r''), (CHR ''c'', ''done'', CHR ''c'')]"
  by code_simp

theorem done_exits_before_memory_witness:
  "step (example_config False)
        (example_env (Predicted (''<r>done</r><c>done</c>'' @ [nl] @ ''Objective complete''))
           [] PNone)
        (initial_state ''gpt-4'') =
     (Exit, (initial_state ''gpt-4'')\<lparr>thought := ''done''\<rparr>,
      [Print ''The agent concluded: done''])"
proof -
  let ?r = "''<r>done</r><c>done</c>'' @ [nl] @ ''Objective complete''"
  let ?e = "example_env (Predicted ?r) [] PNone"
  have "findall (hd (split_nl ?r)) =
          [(CHR ''r'', ''done'', CHR ''r''), (CHR ''c'', ''done'', CHR ''c'')]"
    by (simp only: scenario_B_first_line scenario_B_matches)
  from done_exits_before_memory
         [of ?e "initial_state ''gpt-4''" "example_config False" ?r, OF _ this]
  show ?thesis
    by (simp add: content_def debug_print_def example_config_simps example_env_predict)
qed

section \<open>Malformed responses\<close>


text \<open>Scenario C of the specification: a response with no tags at all.\<close>

lemma no_tags_first_line: "hd (split_nl ''I will list the files'') = ''I will list the files''"
  by code_simp

lemma no_tags_matches: "findall ''I will list the files'' = []"
  by code_simp


section \<open>What the pattern accepts\<close>

text \<open>
  Claim C10. The extraction looks at positions only, not at tag names. Take any first
  line made of a text \<open>P\<close> in which no opening tag starts, a first tagged segment with
  body \<open>X\<close>, a text \<open>M\<close> in which no opening tag starts, a second tagged segment with
  body \<open>Y\<close>, and any rest \<open>Z\<close>, where the four tag letters are \<open>r\<close> or \<open>c\<close> in any
  combination (in order, out of order, or an opening \<open>r\<close> closed by \<open>c\<close>) and no
  closing tag starts inside \<open>X\<close> or \<open>Y\<close>. The matches are these two segments followed by
  whatever matches \<open>Z\<close> holds; the parse succeeds with reasoning \<open>X\<close> and command \<open>Y\<close>
  whatever \<open>Z\<close> is, so further tag pairs are ignored, not rejected.
\<close>

theorem tags_are_positional:
  assumes "is_tag_char a" "is_tag_char b" "is_tag_char c" "is_tag_char d"
    and "no_open P" "no_open M" "tagless X" "tagless Y"
  shows "findall (P @ tagged a X b @ M @ tagged c Y d @ Z) = (a, X, b) # (c, Y, d) # findall Z
         \<and> parse_response th ((P @ tagged a X b @ M @ tagged c Y d @ Z) # rest) =
             (if Y = ''done'' then Finished X else Action X Y (remove_fences (join_nl rest)))"
proof -
  have f: "findall (P @ tagged a X b @ M @ tagged c Y d @ Z) = (a, X, b) # (c, Y, d) # findall Z"
    using assms by (rule findall_two_tags)
  show ?thesis
  proof (cases "Y = ''done''")
    case True
    with f have "parse_response th ((P @ tagged a X b @ M @ tagged c Y d @ Z) # rest) = Finished X"
      using parse_response_done [of "(P @ tagged a X b @ M @ tagged c Y d @ Z) # rest"
          "(a, X, b)" "(c, Y, d)" "findall Z" th]
      by (simp add: content_def)
    with f True show ?thesis by simp
  next
    case False
    with f have "parse_response th ((P @ tagged a X b @ M @ tagged c Y d @ Z) # rest) =
        Action X Y (remove_fences (join_nl rest))"
      using parse_response_Action [of "(P @ tagged a X b @ M @ tagged c Y d @ Z) # rest"
          "(a, X, b)" "(c, Y, d)" "findall Z" th]
      by (simp add: content_def)
    with f False show ?thesis by simp
  qed
qed

theorem tags_are_positional_witness:
  "is_tag_char CHR ''c'' \<and> is_tag_char CHR ''r'' \<and> no_open ''ok '' \<and> no_open '' then '' \<and>
   tagless ''look'' \<and> tagless ''read_file'' \<and>
   findall (''ok '' @ tagged CHR ''c'' ''look'' CHR ''c'' @ '' then '' @
            tagged CHR ''r'' ''read_file'' CHR ''c'' @ ''<r>x</r>'') =
     [(CHR ''c'', ''look'', CHR ''c''), (CHR ''r'', ''read_file'', CHR ''c''),
      (CHR ''r'', ''x'', CHR ''r'')] \<and>
   parse_response []
     [''ok '' @ tagged CHR ''c'' ''look'' CHR ''c'' @ '' then '' @
      tagged CHR ''r'' ''read_file'' CHR ''c'' @ ''<r>x</r>'', ''notes.txt''] =
     Action ''look'' ''read_file'' ''notes.txt''"
proof -
  have h: "is_tag_char CHR ''c''" "is_tag_char CHR ''r''" "no_open ''ok ''" "no_open '' then ''"
    "tagless ''look''" "tagless ''read_file''"
    by code_simp+
  have z: "findall ''<r>x</r>'' = [(CHR ''r'', ''x'', CHR ''r'')]"
    by code_simp
  have n: "''read_file'' \<noteq> ''done''" "remove_fences (join_nl [''notes.txt'']) = ''notes.txt''"
    by code_simp+
  from tags_are_positional [OF h(1) h(1) h(2) h(1) h(3) h(4) h(5) h(6), of "''<r>x</r>''" "[]" "[''notes.txt'']"]
  show ?thesis
    using h by (simp only: z n if_False simp_thms)
qed

section \<open>Failures of the model request\<close>

text \<open>
  Claim C8. When the model request raises \<open>InvalidRequestError\<close> and the error text
  names \<open>gpt-4\<close>, the iteration prints the fallback notice, replaces the agent by one for
  \<open>gpt-3.5-turbo\<close> and continues: the next iteration starts from the same state but for
  the agent, so the query is made again. Neither the summarizer nor \<open>agent.memorize\<close> is
  called. When the request fails in any other way the loop does not retry: for an
  \<open>InvalidRequestError\<close> that does not name \<open>gpt-4\<close> it prints \<open>Error accessing the
  OpenAI API:\<close> with the error text and leaves by \<open>sys.exit(0)\<close>; an exception of another
  class is not caught, so it leaves the loop carrying its error text and the process ends
  with Python's report of it. No memory call is made on any of these paths. (What the
  history of the newly constructed agent holds is a matter of the \<open>ThinkGPT\<close> class, not
  of this loop; the loop itself neither reads nor writes it here.)
\<close>

theorem request_failure_handling:
  assumes "predict e (agent_model s) (PROMPT_format cfg (build_context cfg e s)) = p"
    and "p = InvalidRequestError msg \<or> p = OtherError msg"
  shows "step cfg e s =
           (if p = InvalidRequestError msg \<and> contains ''gpt-4'' msg then
              (Continue, s\<lparr>agent_model := ''gpt-3.5-turbo''\<rparr>,
               debug_print cfg ''CONTEXT:'' (build_context cfg e s) @
               [Print ''Prompting the gpt-4 model failed. Falling back to gpt-3.5-turbo'',
                NewAgent ''gpt-3.5-turbo''])
            else if p = InvalidRequestError msg then
              (Exit, s,
               debug_print cfg ''CONTEXT:'' (build_context cfg e s) @
               [Print (''Error accessing the OpenAI API: '' @ msg)])
            else (Uncaught msg, s, debug_print cfg ''CONTEXT:'' (build_context cfg e s)))
         \<and> filter is_memory_event (snd (snd (step cfg e s))) = []
         \<and> run cfg (e # es) s =
             (if p = InvalidRequestError msg \<and> contains ''gpt-4'' msg then
                (case run cfg es (s\<lparr>agent_model := ''gpt-3.5-turbo''\<rparr>) of
                   (out, s'', evs') \<Rightarrow> (out, s'', snd (snd (step cfg e s)) @ evs'))
              else step cfg e s)"
proof -
  have eq: "step cfg e s =
           (if p = InvalidRequestError msg \<and> contains ''gpt-4'' msg then
              (Continue, s\<lparr>agent_model := ''gpt-3.5-turbo''\<rparr>,
               debug_print cfg ''CONTEXT:'' (build_context cfg e s) @
               [Print ''Prompting the gpt-4 model failed. Falling back to gpt-3.5-turbo'',
                NewAgent ''gpt-3.5-turbo''])
            else if p = InvalidRequestError msg then
              (Exit, s,
               debug_print cfg ''CONTEXT:'' (build_context cfg e s) @
               [Print (''Error accessing the OpenAI API: '' @ msg)])
            else (Uncaught msg, s, debug_print cfg ''CONTEXT:'' (build_context cfg e s)))"
    using assms by (auto simp: step_def Let_def)
  have quiet: "filter is_memory_event (snd (snd (step cfg e s))) = []"
    unfolding eq by (simp add: debug_print_quiet)
  have loop: "run cfg (e # es) s =
             (if p = InvalidRequestError msg \<and> contains ''gpt-4'' msg then
                (case run cfg es (s\<lparr>agent_model := ''gpt-3.5-turbo''\<rparr>) of
                   (out, s'', evs') \<Rightarrow> (out, s'', snd (snd (step cfg e s)) @ evs'))
              else step cfg e s)"
  proof (cases "p = InvalidRequestError msg \<and> contains ''gpt-4'' msg")
    case True
    with eq have "step cfg e s = (Continue, s\<lparr>agent_model := ''gpt-3.5-turbo''\<rparr>,
               debug_print cfg ''CONTEXT:'' (build_context cfg e s) @
               [Print ''Prompting the gpt-4 model failed. Falling back to gpt-3.5-turbo'',
                NewAgent ''gpt-3.5-turbo''])"
      by simp
    from run_Continue [OF this, of es] this True show ?thesis by (simp del: run.simps)
  next
    case False
    with eq obtain out evs where st: "step cfg e s = (out, s, evs)" and ne: "out \<noteq> Continue"
      by (cases "p = InvalidRequestError msg") auto
    have "run cfg (e # es) s = (out, s, evs)"
      using st ne by (rule run_stop)
    with st False show ?thesis by (auto simp del: run.simps)
  qed
  from eq quiet loop show ?thesis by blast
qed

lemma names_gpt4: "contains ''gpt-4'' ''The model: `gpt-4` does not exist''"
  by code_simp

theorem request_failure_handling_witness:
  "step (example_config False)
        (example_env (InvalidRequestError ''The model: `gpt-4` does not exist'') [] PNone)
        (initial_state ''gpt-4'') =
     (Continue, (initial_state ''gpt-4'')\<lparr>agent_model := ''gpt-3.5-turbo''\<rparr>,
      [Print ''Prompting the gpt-4 model failed. Falling back to gpt-3.5-turbo'',
       NewAgent ''gpt-3.5-turbo''])"
proof -
  let ?m = "''The model: `gpt-4` does not exist''"
  let ?e = "example_env (InvalidRequestError ?m) [] PNone"
  have d: "InvalidRequestError ?m = InvalidRequestError ?m \<or> InvalidRequestError ?m = OtherError ?m"
    by simp
  from request_failure_handling
         [of ?e "initial_state ''gpt-4''" "example_config False" "InvalidRequestError ?m" ?m "[]",
          OF example_env_predict d]
  show ?thesis
    by (simp add: names_gpt4 debug_print_def example_config_simps del: contains.simps)
qed

section \<open>The action stored in the history\<close>

text \<open>The records that an iteration hands to \<open>agent.memorize\<close>, path by path.\<close>

lemma memorized_append: "memorized (xs @ ys) = memorized xs @ memorized ys"
  by (induction xs rule: memorized.induct) simp_all

lemma memorized_on_exception:
  "memorized (snd (on_exception e cfg s action msg)) =
     [new_memory action (observation (fst (on_exception e cfg s action msg)))]"
  by (simp add: on_exception_eq)

lemma execute_memorized:
  assumes "c \<noteq> ''done''"
  shows "memorized (snd (snd (execute e cfg s c a action))) =
           (if fst (execute e cfg s c a action) = Continue
            then [new_memory
                    (if c = ''execute_python'' then snd (snd (exec e a (s, action))) else action)
                    (observation (fst (snd (execute e cfg s c a action))))]
            else [])"
proof -
  obtain res s1 action1 evs
    where d: "dispatch e cfg c a (s, action) = (res, (s1, action1), evs)"
    by (cases "dispatch e cfg c a (s, action)") auto
  have q: "memorized evs = []"
    using dispatch_quiet(1) [of e cfg c a "(s, action)"] d by simp
  have a1: "action1 =
      (if c = ''execute_python'' then snd (snd (exec e a (s, action))) else action)"
    using dispatch_action [of e cfg c a s action] d by simp
  show ?thesis
  proof (cases res)
    case (Returned v)
    show ?thesis
    proof (cases v)
      case (PStr ob)
      with d Returned have "dispatch e cfg c a (s, action) = (Returned (PStr ob), (s1, action1), evs)"
        by simp
      from execute_Returned_str [OF this] show ?thesis
        by (simp add: memorized_append q a1)
    next
      case PNone
      with d Returned have "dispatch e cfg c a (s, action) = (Returned v, (s1, action1), evs)"
        and "v = PNone \<or> v = PList []" by simp_all
      from execute_Returned_other [OF this] show ?thesis
        by (simp add: memorized_append q memorized_on_exception a1)
    next
      case (PList l)
      with d Returned have "dispatch e cfg c a (s, action) = (Returned v, (s1, action1), evs)"
        and "v = PNone \<or> v = PList l" by simp_all
      from execute_Returned_other [OF this] show ?thesis
        by (simp add: memorized_append q memorized_on_exception a1)
    qed
  next
    case (Raised msg)
    with d have "dispatch e cfg c a (s, action) = (Raised msg, (s1, action1), evs)"
      by simp
    from execute_Raised [OF this] show ?thesis
      by (simp add: memorized_append q memorized_on_exception a1)
  next
    case SystemExit
    with d have "fst (dispatch e cfg c a (s, action)) = SystemExit" by simp
    then have "c = ''done''" by (rule dispatch_SystemExit)
    with assms show ?thesis by simp
  next
    case Escaped
    with d have "dispatch e cfg c a (s, action) = (Escaped, (s1, action1), evs)"
      by simp
    from execute_Escaped [OF this] show ?thesis
      by (simp add: q)
  qed
qed

lemma execute_Continue:
  assumes "c \<noteq> ''done''" and "c \<noteq> ''execute_python''"
  shows "fst (execute e cfg s c a action) = Continue"
proof -
  obtain res s1 action1 evs
    where d: "dispatch e cfg c a (s, action) = (res, (s1, action1), evs)"
    by (cases "dispatch e cfg c a (s, action)") auto
  show ?thesis
  proof (cases res)
    case (Returned v)
    with d show ?thesis
      by (cases v) (simp_all add: execute_def split_beta)
  next
    case (Raised msg)
    with d show ?thesis by (simp add: execute_def split_beta)
  next
    case SystemExit
    with d have "fst (dispatch e cfg c a (s, action)) = SystemExit" by simp
    then have "c = ''done''" by (rule dispatch_SystemExit)
    with assms show ?thesis by simp
  next
    case Escaped
    with d have "fst (dispatch e cfg c a (s, action)) = Escaped" by simp
    then have "c = ''execute_python''" by (rule dispatch_Escaped)
    with assms show ?thesis by simp
  qed
qed

lemma perform_memorized:
  assumes "c \<noteq> ''done''"
  shows "memorized (snd (snd (perform cfg e s c a))) =
           (if fst (perform cfg e s c a) = Continue
            then [new_memory
                    (if c = ''talk_to_user'' \<or> (PROMPT_USER cfg \<and> input e confirm_prompt \<noteq> [])
                     then render_action (thought s) c (abbreviated_arg a)
                     else if c = ''execute_python''
                       then snd (snd (exec e a (s, render_action (thought s) c a)))
                       else render_action (thought s) c a)
                    (observation (fst (snd (perform cfg e s c a))))]
            else [])"
proof (cases "c = ''talk_to_user''")
  case True
  then show ?thesis by (simp add: perform_talk)
next
  case False
  note nt = this
  show ?thesis
  proof (cases "PROMPT_USER cfg \<and> input e confirm_prompt \<noteq> []")
    case True
    with nt show ?thesis by (simp add: perform_declined)
  next
    case False
    then have g: "\<not> PROMPT_USER cfg \<or> input e confirm_prompt = []" by simp
    obtain out s' evs where x: "execute e cfg s c a (render_action (thought s) c a) = (out, s', evs)"
      by (cases "execute e cfg s c a (render_action (thought s) c a)")
    with execute_memorized [OF assms, of e cfg s a "render_action (thought s) c a"]
    have m: "memorized evs =
        (if out = Continue
         then [new_memory
                 (if c = ''execute_python''
                  then snd (snd (exec e a (s, render_action (thought s) c a)))
                  else render_action (thought s) c a)
                 (observation s')]
         else [])"
      by simp
    from nt g have "perform cfg e s c a =
       (out, s', Print (''MiniAGI: '' @ render_action (thought s) c (abbreviated_arg a)) #
           (if PROMPT_USER cfg then [Ask confirm_prompt] else []) @ evs)"
      by (simp add: perform_executed x)
    with nt False m show ?thesis by (simp add: memorized_append)
  qed
qed

lemma perform_Continue:
  assumes "c \<noteq> ''done''" and "c \<noteq> ''execute_python''"
  shows "fst (perform cfg e s c a) = Continue"
proof (cases "c = ''talk_to_user''")
  case True
  then show ?thesis by (simp add: perform_talk)
next
  case False
  note nt = this
  show ?thesis
  proof (cases "PROMPT_USER cfg \<and> input e confirm_prompt \<noteq> []")
    case True
    with nt show ?thesis by (simp add: perform_declined)
  next
    case False
    then have g: "\<not> PROMPT_USER cfg \<or> input e confirm_prompt = []" by simp
    from perform_executed [OF nt g]
    have "fst (perform cfg e s c a) = fst (execute e cfg s c a (render_action (thought s) c a))"
      by (simp add: split_beta)
    with execute_Continue [OF assms] show ?thesis by simp
  qed
qed

lemma step_perform:
  assumes "predict e (agent_model s) (PROMPT_format cfg (build_context cfg e s)) = Predicted r"
    and "parse_response (thought s) (split_nl r) = Action th c a"
  shows "fst (step cfg e s) = fst (perform cfg e (s\<lparr>thought := th\<rparr>) c a)"
    and "fst (snd (step cfg e s)) = fst (snd (perform cfg e (s\<lparr>thought := th\<rparr>) c a))"
    and "memorized (snd (snd (step cfg e s))) =
         memorized (snd (snd (perform cfg e (s\<lparr>thought := th\<rparr>) c a)))"
  by (simp_all add: step_Predicted [OF assms(1)] respond_Action [OF assms(2)] split_beta
        memorized_append debug_print_quiet)

lemma step_memorized:
  assumes "predict e (agent_model s) (PROMPT_format cfg (build_context cfg e s)) = Predicted r"
    and "parse_response (thought s) (split_nl r) = Action th c a"
  shows "memorized (snd (snd (step cfg e s))) =
           (if fst (step cfg e s) = Continue
            then [new_memory
                    (if c = ''talk_to_user'' \<or> (PROMPT_USER cfg \<and> input e confirm_prompt \<noteq> [])
                     then render_action th c (abbreviated_arg a)
                     else if c = ''execute_python''
                       then snd (snd (exec e a (s\<lparr>thought := th\<rparr>, render_action th c a)))
                       else render_action th c a)
                    (observation (fst (snd (step cfg e s))))]
            else [])"
proof -
  have nd: "c \<noteq> ''done''"
    using assms(2) by (rule parse_Action_not_done)
  show ?thesis
    unfolding step_perform [OF assms]
    using perform_memorized [OF nd, of cfg e "s\<lparr>thought := th\<rparr>" a] by simp
qed

lemma step_Continue:
  assumes "predict e (agent_model s) (PROMPT_format cfg (build_context cfg e s)) = Predicted r"
    and "parse_response (thought s) (split_nl r) = Action th c a"
    and "c \<noteq> ''execute_python''"
  shows "fst (step cfg e s) = Continue"
proof -
  have nd: "c \<noteq> ''done''"
    using assms(2) by (rule parse_Action_not_done)
  show ?thesis
    unfolding step_perform(1) [OF assms(1,2)]
    using nd assms(3) by (rule perform_Continue)
qed

text \<open>
  Claim C6, as the code has it. Whenever an iteration that carries out a parsed action
  appends a record to the history, the record pairs a rendered action with the
  observation the iteration ends with, and the rendered action is this. For
  \<open>talk_to_user\<close>, and for an action the user declines at the confirmation prompt, it is
  \<open>abbreviated_action\<close>: the argument is cut to 64 characters followed by \<open>...\<close> when it
  has 64 characters or more, and its newlines are escaped. On the execution path (the
  command was executed, raised an \<open>Exception\<close>, or matched no branch) it is the value of
  the variable \<open>action\<close>: the unabbreviated rendering with the full argument, except that
  code run by \<open>execute_python\<close> may have assigned \<open>action\<close>, and then it is what that
  code left there.
\<close>

theorem memory_record_action:
  assumes "predict e (agent_model s) (PROMPT_format cfg (build_context cfg e s)) = Predicted r"
    and "parse_response (thought s) (split_nl r) = Action th c a"
  shows "\<forall>m \<in> set (memorized (snd (snd (step cfg e s)))).
           m = new_memory
                 (if c = ''talk_to_user'' \<or> (PROMPT_USER cfg \<and> input e confirm_prompt \<noteq> [])
                  then render_action th c (abbreviated_arg a)
                  else if c = ''execute_python''
                    then snd (snd (exec e a (s\<lparr>thought := th\<rparr>, render_action th c a)))
                    else render_action th c a)
                 (observation (fst (snd (step cfg e s))))"
  unfolding step_memorized [OF assms] by simp

text \<open>
  Two instances: an executed shell command with an argument of two lines, whose record
  has the argument as it is, and a \<open>talk_to_user\<close> action with an argument of two
  lines, whose record has the abbreviated argument.
\<close>

lemma shell_example_parse:
  "parse_response [] (split_nl (''<r>list</r><c>execute_shell</c>'' @ [nl] @ ''ls'' @ [nl] @ ''pwd'')) =
     Action ''list'' ''execute_shell'' (''ls'' @ [nl] @ ''pwd'')"
  by code_simp

lemma talk_example_parse:
  "parse_response [] (split_nl (''<r>ask</r><c>talk_to_user</c>'' @ [nl] @ ''a'' @ [nl] @ ''b'')) =
     Action ''ask'' ''talk_to_user'' (''a'' @ [nl] @ ''b'')"
  by code_simp

lemma talk_example_abbreviated:
  "abbreviated_arg (''a'' @ [nl] @ ''b'') = ''a'' @ [backslash, CHR ''n''] @ ''b''"
  by code_simp

lemma talk_example_differs: "''a'' @ [backslash, CHR ''n''] @ ''b'' \<noteq> ''a'' @ [nl] @ ''b''"
  by code_simp

theorem memory_record_action_witness:
  "memorized (snd (snd (step (example_config False)
      (example_env (Predicted (''<r>list</r><c>execute_shell</c>'' @ [nl] @ ''ls'' @ [nl] @ ''pwd''))
         [] PNone)
      (initial_state ''gpt-4'')))) =
     [new_memory (render_action ''list'' ''execute_shell'' (''ls'' @ [nl] @ ''pwd''))
        (observation (fst (snd (step (example_config False)
           (example_env
              (Predicted (''<r>list</r><c>execute_shell</c>'' @ [nl] @ ''ls'' @ [nl] @ ''pwd''))
              [] PNone)
           (initial_state ''gpt-4'')))))]
   \<and> memorized (snd (snd (step (example_config False)
      (example_env (Predicted (''<r>ask</r><c>talk_to_user</c>'' @ [nl] @ ''a'' @ [nl] @ ''b''))
         ''yes'' PNone)
      (initial_state ''gpt-4'')))) =
     [new_memory (render_action ''ask'' ''talk_to_user'' (''a'' @ [backslash, CHR ''n''] @ ''b''))
        (observation (fst (snd (step (example_config False)
           (example_env
              (Predicted (''<r>ask</r><c>talk_to_user</c>'' @ [nl] @ ''a'' @ [nl] @ ''b''))
              ''yes'' PNone)
           (initial_state ''gpt-4'')))))]"
proof -
  let ?r = "''<r>list</r><c>execute_shell</c>'' @ [nl] @ ''ls'' @ [nl] @ ''pwd''"
  let ?e = "example_env (Predicted ?r) [] PNone"
  let ?q = "''<r>ask</r><c>talk_to_user</c>'' @ [nl] @ ''a'' @ [nl] @ ''b''"
  let ?f = "example_env (Predicted ?q) ''yes'' PNone"
  let ?s = "initial_state ''gpt-4''"
  let ?c = "example_config False"
  have t: "thought ?s = []"
    by (simp add: initial_state_def)
  have p: "parse_response (thought ?s) (split_nl ?r) =
             Action ''list'' ''execute_shell'' (''ls'' @ [nl] @ ''pwd'')"
    unfolding t by (rule shell_example_parse)
  have p': "parse_response (thought ?s) (split_nl ?q) =
             Action ''ask'' ''talk_to_user'' (''a'' @ [nl] @ ''b'')"
    unfolding t by (rule talk_example_parse)
  have c: "''execute_shell'' \<noteq> ''talk_to_user''" "''execute_shell'' \<noteq> ''execute_python''"
    "''talk_to_user'' \<noteq> ''execute_python''"
    by simp_all
  obtain m where m: "memorized (snd (snd (step ?c ?e ?s))) = [m]"
    using step_memorized [OF example_env_predict p, of ?c]
      step_Continue [OF example_env_predict p c(2), of ?c]
    by simp
  obtain m' where m': "memorized (snd (snd (step ?c ?f ?s))) = [m']"
    using step_memorized [OF example_env_predict p', of ?c]
      step_Continue [OF example_env_predict p' c(3), of ?c]
    by simp
  from memory_record_action [of ?e ?s ?c ?r, OF example_env_predict p] m
  have 1: "m = new_memory (render_action ''list'' ''execute_shell'' (''ls'' @ [nl] @ ''pwd''))
        (observation (fst (snd (step ?c ?e ?s))))"
    by (simp only: c example_config_simps simp_thms if_False list.set ball_simps insert_iff
          empty_iff)
  from memory_record_action [of ?f ?s ?c ?q, OF example_env_predict p'] m'
  have 2: "m' = new_memory
        (render_action ''ask'' ''talk_to_user'' (''a'' @ [backslash, CHR ''n''] @ ''b''))
        (observation (fst (snd (step ?c ?f ?s))))"
    by (simp only: simp_thms if_True talk_example_abbreviated list.set ball_simps insert_iff
          empty_iff)
  from m 1 m' 2 show ?thesis by simp
qed

text \<open>
  The claim as worded fails for \<open>talk_to_user\<close>: with the argument \<open>a\<close>, newline, \<open>b\<close>
  the stored record holds the escaped argument, not the argument itself.
\<close>

theorem talk_record_is_abbreviated:
  "memorized (snd (snd (step (example_config False)
      (example_env (Predicted (''<r>ask</r><c>talk_to_user</c>'' @ [nl] @ ''a'' @ [nl] @ ''b''))
         ''yes'' PNone)
      (initial_state ''gpt-4'')))) =
     [new_memory (render_action ''ask'' ''talk_to_user'' (''a'' @ [backslash, CHR ''n''] @ ''b''))
        ''The user responded with: yes.'']
   \<and> new_memory (render_action ''ask'' ''talk_to_user'' (''a'' @ [backslash, CHR ''n''] @ ''b''))
        ''The user responded with: yes.'' \<noteq>
     new_memory (render_action ''ask'' ''talk_to_user'' (''a'' @ [nl] @ ''b''))
        ''The user responded with: yes.''"
proof -
  let ?r = "''<r>ask</r><c>talk_to_user</c>'' @ [nl] @ ''a'' @ [nl] @ ''b''"
  let ?e = "example_env (Predicted ?r) ''yes'' PNone"
  let ?s = "initial_state ''gpt-4''"
  have t: "thought ?s = []"
    by (simp add: initial_state_def)
  have p: "parse_response (thought ?s) (split_nl ?r) =
             Action ''ask'' ''talk_to_user'' (''a'' @ [nl] @ ''b'')"
    unfolding t by (rule talk_example_parse)
  have st: "step (example_config False) ?e ?s =
     (case respond (example_config False) ?e ?s ?r of
        (out, s', evs) \<Rightarrow>
          (out, s',
           debug_print (example_config False) ''CONTEXT:''
             (build_context (example_config False) ?e ?s) @ evs))"
    by (rule step_Predicted [OF example_env_predict])
  have re: "respond (example_config False) ?e ?s ?r =
     (case perform (example_config False) ?e (?s\<lparr>thought := ''ask''\<rparr>) ''talk_to_user''
             (''a'' @ [nl] @ ''b'') of
        (out, s', evs) \<Rightarrow>
          (out, s', debug_print (example_config False) ''RAW RESPONSE:'' ?r @ evs))"
    by (rule respond_Action [OF p])
  have "memorized (snd (snd (step (example_config False) ?e ?s))) =
     [new_memory (render_action ''ask'' ''talk_to_user'' (''a'' @ [backslash, CHR ''n''] @ ''b''))
        ''The user responded with: yes.'']"
    unfolding st re perform_talk talk_example_abbreviated
    by (simp add: memorized_append debug_print_quiet example_env_input)
  moreover have "new_memory (render_action ''ask'' ''talk_to_user'' (''a'' @ [backslash, CHR ''n''] @ ''b''))
        ''The user responded with: yes.'' \<noteq>
     new_memory (render_action ''ask'' ''talk_to_user'' (''a'' @ [nl] @ ''b''))
        ''The user responded with: yes.''"
    using talk_example_differs by (simp add: new_memory_def render_action_def)
  ultimately show ?thesis by (rule conjI)
qed

section \<open>Commands outside the list\<close>

lemma step_unknown_command:
  assumes "predict e (agent_model s) (PROMPT_format cfg (build_context cfg e s)) = Predicted r"
    and "findall (hd (split_nl r)) = m0 # m1 # ms"
    and "content m1 \<notin> set known_commands"
    and "\<not> PROMPT_USER cfg \<or> input e confirm_prompt = []"
  shows "step cfg e s =
     (Continue, s\<lparr>thought := content m0\<rparr>,
      debug_print cfg ''CONTEXT:'' (build_context cfg e s) @
      debug_print cfg ''RAW RESPONSE:'' r @
      Print (''MiniAGI: '' @ render_action (content m0) (content m1)
               (abbreviated_arg (remove_fences (join_nl (tl (split_nl r)))))) #
      (if PROMPT_USER cfg then [Ask confirm_prompt] else []) @
      [Print (''OBSERVATION: '' @ observation s),
       Summarize
         (summarized_history s @ [nl] @
          new_memory (render_action (content m0) (content m1)
                        (remove_fences (join_nl (tl (split_nl r))))) (observation s))
         (max_memory_item_size cfg) update_hint,
       Memorize
         (new_memory (render_action (content m0) (content m1)
                        (remove_fences (join_nl (tl (split_nl r))))) (observation s))])"
proof -
  let ?a = "remove_fences (join_nl (tl (split_nl r)))"
  let ?s = "s\<lparr>thought := content m0\<rparr>"
  have nd: "content m1 \<noteq> ''done''" and nt: "content m1 \<noteq> ''talk_to_user''"
    using assms(3) by (auto simp: known_commands_def)
  have p: "parse_response (thought s) (split_nl r) = Action (content m0) (content m1) ?a"
    using assms(2) nd by (rule parse_response_Action)
  have d: "dispatch e cfg (content m1) ?a (?s, render_action (thought ?s) (content m1) ?a) =
             (Returned (PStr (observation ?s)), (?s, render_action (thought ?s) (content m1) ?a), [])"
    using dispatch_unknown [OF assms(3), of e cfg ?a "(?s, render_action (thought ?s) (content m1) ?a)"]
    by simp
  have x: "execute e cfg ?s (content m1) ?a (render_action (thought ?s) (content m1) ?a) =
     (Continue, ?s\<lparr>observation := observation ?s\<rparr>,
      [] @ [Print (''OBSERVATION: '' @ observation ?s),
             Summarize (summarized_history ?s @ [nl] @
                        new_memory (render_action (thought ?s) (content m1) ?a) (observation ?s))
               (max_memory_item_size cfg) update_hint,
             Memorize (new_memory (render_action (thought ?s) (content m1) ?a) (observation ?s))])"
    using d by (rule execute_Returned_str)
  then have x': "execute e cfg ?s (content m1) ?a (render_action (content m0) (content m1) ?a) =
     (Continue, ?s,
      [Print (''OBSERVATION: '' @ observation s),
       Summarize (summarized_history s @ [nl] @
                  new_memory (render_action (content m0) (content m1) ?a) (observation s))
         (max_memory_item_size cfg) update_hint,
       Memorize (new_memory (render_action (content m0) (content m1) ?a) (observation s))])"
    by simp
  show ?thesis
    by (simp add: step_Predicted [OF assms(1)] respond_Action [OF p]
          perform_executed [OF nt assms(4)] x')
qed

text \<open>
  Claim C7, as the code has it. When the parsed command is none of the seven known
  commands (and the user does not decline at the confirmation prompt), no branch of the
  dispatch is taken and no handler starts, but the statements after the chain still run:
  the iteration prints \<open>OBSERVATION:\<close> with the observation left by the previous
  iteration (empty at first), calls \<open>update_memory\<close> with the full rendered action and
  that same observation, leaves the observation as it was, and continues.
\<close>

theorem unknown_command_recorded:
  assumes "predict e (agent_model s) (PROMPT_format cfg (build_context cfg e s)) = Predicted r"
    and "findall (hd (split_nl r)) = m0 # m1 # ms"
    and "content m1 \<notin> set known_commands"
    and "\<not> PROMPT_USER cfg \<or> input e confirm_prompt = []"
  shows "fst (step cfg e s) = Continue
         \<and> filter is_run_event (snd (snd (step cfg e s))) = []
         \<and> observation (fst (snd (step cfg e s))) = observation s
         \<and> Print (''OBSERVATION: '' @ observation s) \<in> set (snd (snd (step cfg e s)))
         \<and> memorized (snd (snd (step cfg e s))) =
             [new_memory
                (render_action (content m0) (content m1)
                   (remove_fences (join_nl (tl (split_nl r)))))
                (observation s)]"
  unfolding step_unknown_command [OF assms]
  by (simp add: debug_print_quiet memorized_append)

text \<open>The command \<open>fly\<close>: the memory is updated, with the empty initial observation.\<close>

lemma fly_first_line:
  "hd (split_nl (''<r>go</r><c>fly</c>'' @ [nl] @ ''up'')) = ''<r>go</r><c>fly</c>''"
  by code_simp

lemma fly_argument:
  "remove_fences (join_nl (tl (split_nl (''<r>go</r><c>fly</c>'' @ [nl] @ ''up'')))) = ''up''"
  by code_simp

lemma fly_matches:
  "findall ''<r>go</r><c>fly</c>'' = [(CHR ''r'', ''go'', CHR ''r''), (CHR ''c'', ''fly'', CHR ''c'')]"
  by code_simp

lemma fly_unknown: "''fly'' \<notin> set known_commands"
  by code_simp

lemma fly_premises:
  "findall (hd (split_nl (''<r>go</r><c>fly</c>'' @ [nl] @ ''up''))) =
     [(CHR ''r'', ''go'', CHR ''r''), (CHR ''c'', ''fly'', CHR ''c'')]"
  "content (CHR ''c'', ''fly'', CHR ''c'') \<notin> set known_commands"
  "\<not> PROMPT_USER (example_config False) \<or> input e confirm_prompt = []"
  using fly_unknown
  by (simp_all only: fly_first_line fly_matches content_def fst_conv snd_conv
        example_config_simps simp_thms)

theorem unknown_command_updates_memory:
  "''fly'' \<notin> set known_commands \<and>
   memorized (snd (snd (step (example_config False)
      (example_env (Predicted (''<r>go</r><c>fly</c>'' @ [nl] @ ''up'')) [] PNone)
      (initial_state ''gpt-4'')))) =
     [new_memory (render_action ''go'' ''fly'' ''up'') []]"
proof -
  let ?r = "''<r>go</r><c>fly</c>'' @ [nl] @ ''up''"
  let ?e = "example_env (Predicted ?r) [] PNone"
  have "memorized (snd (snd (step (example_config False) ?e (initial_state ''gpt-4'')))) =
     [new_memory (render_action ''go'' ''fly'' ''up'') []]"
    unfolding step_unknown_command [OF example_env_predict fly_premises] fly_argument
    by (simp add: debug_print_quiet memorized_append content_def initial_state_def)
  with fly_unknown show ?thesis by (rule conjI)
qed

theorem unknown_command_recorded_witness:
  "fst (step (example_config False)
      (example_env (Predicted (''<r>go</r><c>fly</c>'' @ [nl] @ ''up'')) [] PNone)
      (initial_state ''gpt-4'')) = Continue \<and>
   filter is_run_event (snd (snd (step (example_config False)
      (example_env (Predicted (''<r>go</r><c>fly</c>'' @ [nl] @ ''up'')) [] PNone)
      (initial_state ''gpt-4'')))) = [] \<and>
   observation (fst (snd (step (example_config False)
      (example_env (Predicted (''<r>go</r><c>fly</c>'' @ [nl] @ ''up'')) [] PNone)
      (initial_state ''gpt-4'')))) = []"
proof -
  let ?r = "''<r>go</r><c>fly</c>'' @ [nl] @ ''up''"
  let ?e = "example_env (Predicted ?r) [] PNone"
  have o: "observation (initial_state ''gpt-4'') = []"
    by (simp add: initial_state_def)
  from unknown_command_recorded
         [of ?e "initial_state ''gpt-4''" "example_config False" ?r,
          OF example_env_predict fly_premises]
  show ?thesis
    unfolding o by blast
qed

section \<open>The running summary\<close>

text \<open>
  \<open>update_memory\<close> returns the new summary, but none of its five call sites assigns the
  result: \<open>summarized_history\<close> is read when the context is built and the loop never
  writes it after its initialisation. So unless code run by \<open>exec\<close> assigns it, an
  iteration, and any number of iterations, leave it as it was.
\<close>

lemma dispatch_keeps_summary:
  assumes "exec_keeps_summary e"
  shows "summarized_history (fst (fst (snd (dispatch e cfg c a vars)))) =
         summarized_history (fst vars)"
proof (cases "c = ''execute_python''")
  case True
  with assms show ?thesis
    by (cases vars) (simp add: dispatch_exec_vars exec_keeps_summary_def)
next
  case False
  then show ?thesis by (simp add: dispatch_keeps_vars)
qed

lemma execute_keeps_summary:
  assumes "exec_keeps_summary e"
  shows "summarized_history (fst (snd (execute e cfg s c a action))) = summarized_history s"
proof -
  obtain res s1 action1 evs
    where d: "dispatch e cfg c a (s, action) = (res, (s1, action1), evs)"
    by (cases "dispatch e cfg c a (s, action)") auto
  have k: "summarized_history s1 = summarized_history s"
    using dispatch_keeps_summary [OF assms, of cfg c a "(s, action)"] d by simp
  show ?thesis
  proof (cases res)
    case (Returned v)
    with d k show ?thesis
      by (cases v) (simp_all add: execute_def on_exception_eq)
  next
    case (Raised msg)
    with d k show ?thesis by (simp add: execute_def on_exception_eq)
  next
    case SystemExit
    with d k show ?thesis by (simp add: execute_def)
  next
    case Escaped
    with d k show ?thesis by (simp add: execute_def)
  qed
qed

lemma perform_keeps_summary:
  assumes "exec_keeps_summary e"
  shows "summarized_history (fst (snd (perform cfg e s c a))) = summarized_history s"
proof (cases "c = ''talk_to_user''")
  case True
  then show ?thesis by (simp add: perform_talk)
next
  case False
  note nt = this
  show ?thesis
  proof (cases "PROMPT_USER cfg \<and> input e confirm_prompt \<noteq> []")
    case True
    with nt show ?thesis by (simp add: perform_declined)
  next
    case False
    then have "\<not> PROMPT_USER cfg \<or> input e confirm_prompt = []" by simp
    with nt have "perform cfg e s c a =
     (case execute e cfg s c a (render_action (thought s) c a) of
        (out, s', evs) \<Rightarrow>
          (out, s',
           Print (''MiniAGI: '' @ render_action (thought s) c (abbreviated_arg a)) #
           (if PROMPT_USER cfg then [Ask confirm_prompt] else []) @ evs))"
      by (rule perform_executed)
    then have "fst (snd (perform cfg e s c a)) =
               fst (snd (execute e cfg s c a (render_action (thought s) c a)))"
      by (simp add: split_beta)
    then show ?thesis by (simp only: execute_keeps_summary [OF assms])
  qed
qed

lemma respond_keeps_summary:
  assumes "exec_keeps_summary e"
  shows "summarized_history (fst (snd (respond cfg e s r))) = summarized_history s"
proof (cases "parse_response (thought s) (split_nl r)")
  case (Malformed th)
  then show ?thesis by (simp add: respond_Malformed)
next
  case (Finished th)
  then show ?thesis by (simp add: respond_Finished)
next
  case (Action th c a)
  then have "fst (snd (respond cfg e s r)) = fst (snd (perform cfg e (s\<lparr>thought := th\<rparr>) c a))"
    by (simp add: respond_Action split_beta)
  then show ?thesis by (simp add: perform_keeps_summary [OF assms])
qed

lemma step_keeps_summary:
  assumes "exec_keeps_summary e"
  shows "summarized_history (fst (snd (step cfg e s))) = summarized_history s"
proof (cases "predict e (agent_model s) (PROMPT_format cfg (build_context cfg e s))")
  case (Predicted r)
  then have "fst (snd (step cfg e s)) = fst (snd (respond cfg e s r))"
    by (simp add: step_Predicted split_beta)
  then show ?thesis by (simp add: respond_keeps_summary [OF assms])
next
  case (InvalidRequestError msg)
  then show ?thesis by (simp add: step_def Let_def)
next
  case (OtherError msg)
  then show ?thesis by (simp add: step_def Let_def)
qed

lemma run_keeps_summary:
  assumes "list_all exec_keeps_summary es"
  shows "summarized_history (fst (snd (run cfg es s))) = summarized_history s"
  using assms
proof (induction es arbitrary: s)
  case Nil
  then show ?case by simp
next
  case (Cons e es)
  then have ke: "exec_keeps_summary e" and kes: "list_all exec_keeps_summary es"
    by simp_all
  obtain out s' evs where st: "step cfg e s = (out, s', evs)"
    by (cases "step cfg e s")
  with step_keeps_summary [OF ke, of cfg s] have k: "summarized_history s' = summarized_history s"
    by simp
  show ?case
  proof (cases "out = Continue")
    case True
    with st have "fst (snd (run cfg (e # es) s)) = fst (snd (run cfg es s'))"
      by (simp add: split_beta)
    with Cons.IH [OF kes, of s'] k show ?thesis by simp
  next
    case False
    with st have "run cfg (e # es) s = (out, s', evs)" by (rule run_stop)
    with k show ?thesis by simp
  qed
qed

text \<open>
  Claim C1 says that after every iteration that reaches the memory update the running
  summary is the summarizer's output. On the code it is not. In the iteration below the
  response has no tags; \<open>update_memory\<close> is called, the summarizer is asked and answers
  \<open>S\<close>, which is what \<open>update_memory\<close> returns; the summary carried on is still empty,
  and it is still empty after a second such iteration.
\<close>

theorem summary_is_discarded:
  "step (example_config False) (example_env (Predicted ''I will list the files'') [] PNone)
        (initial_state ''gpt-4'') =
     (Continue,
      (initial_state ''gpt-4'')\<lparr>observation := malformed_observation\<rparr>,
      [Print (''Unable to parse response. Retrying...'' @ [nl]),
       Summarize ([nl] @ new_memory ''I will list the files'' malformed_observation) 2000 update_hint,
       Memorize (new_memory ''I will list the files'' malformed_observation)])
   \<and> fst (update_memory (example_env (Predicted ''I will list the files'') [] PNone)
            (example_config False) ''I will list the files'' malformed_observation []) = ''S''
   \<and> summarized_history ((initial_state ''gpt-4'')\<lparr>observation := malformed_observation\<rparr>) = []
   \<and> summarized_history (fst (snd (run (example_config False)
         [example_env (Predicted ''I will list the files'') [] PNone,
          example_env (Predicted ''I will list the files'') [] PNone]
         (initial_state ''gpt-4'')))) = []"
proof -
  let ?r = "''I will list the files''"
  let ?e = "example_env (Predicted ?r) [] PNone"
  let ?s = "initial_state ''gpt-4''"
  have t: "thought ?s = []" and h: "summarized_history ?s = []"
    by (simp_all add: initial_state_def)
  have m: "findall (hd (split_nl ?r)) = []"
    by (simp only: no_tags_first_line no_tags_matches)
  then have "parse_response (thought ?s) (split_nl ?r) = Malformed []"
    unfolding t by (simp add: parse_response_def)
  then have re: "respond (example_config False) ?e ?s ?r =
     (Continue, ?s\<lparr>thought := [], observation := malformed_observation\<rparr>,
      debug_print (example_config False) ''RAW RESPONSE:'' ?r @
      [Print (''Unable to parse response. Retrying...'' @ [nl]),
       Summarize (summarized_history ?s @ [nl] @ new_memory (hd (split_nl ?r)) malformed_observation)
         (max_memory_item_size (example_config False)) update_hint,
       Memorize (new_memory (hd (split_nl ?r)) malformed_observation)])"
    by (rule respond_Malformed)
  have st: "step (example_config False) ?e ?s =
     (case respond (example_config False) ?e ?s ?r of
        (out, s', evs) \<Rightarrow>
          (out, s',
           debug_print (example_config False) ''CONTEXT:''
             (build_context (example_config False) ?e ?s) @ evs))"
    by (rule step_Predicted [OF example_env_predict])
  have 1: "step (example_config False) ?e ?s =
     (Continue, ?s\<lparr>observation := malformed_observation\<rparr>,
      [Print (''Unable to parse response. Retrying...'' @ [nl]),
       Summarize ([nl] @ new_memory ?r malformed_observation) 2000 update_hint,
       Memorize (new_memory ?r malformed_observation)])"
    unfolding st re no_tags_first_line h
    by (simp add: debug_print_def example_config_simps initial_state_def)
  have 2: "fst (update_memory ?e (example_config False) ?r malformed_observation []) = ''S''"
    by (simp add: update_memory_def Let_def example_env_summarize)
  have 3: "summarized_history (?s\<lparr>observation := malformed_observation\<rparr>) = []"
    by (simp add: initial_state_def)
  have "list_all exec_keeps_summary [?e, ?e]"
    by (simp add: example_env_keeps_summary)
  from run_keeps_summary [OF this, of "example_config False" ?s]
  have 4: "summarized_history (fst (snd (run (example_config False) [?e, ?e] ?s))) = []"
    by (simp only: h)
  from 1 2 3 4 show ?thesis by blast
qed

section \<open>The argument of a well-formed response\<close>

text \<open>
  For a response whose first line is \<open><r>X</r><c>Y</c>\<close> and whose remaining text is
  \<open>Z\<close>, with a command other than \<open>done\<close>, the parser gives the reasoning \<open>X\<close>, the
  command \<open>Y\<close> and the whole of \<open>Z\<close> without its fence markers: splitting at newlines
  and joining again gives \<open>Z\<close> back, last line included.
\<close>

lemma tagless_no_nl: "tagless X \<Longrightarrow> nl \<notin> set X"
  by (induction X) auto

lemma tag_char_not_nl: "is_tag_char a \<Longrightarrow> a \<noteq> nl"
  by (auto simp: is_tag_char_def nl_def)

lemma tagged_no_nl:
  assumes "is_tag_char a" and "is_tag_char b" and "nl \<notin> set X"
  shows "nl \<notin> set (tagged a X b)"
  using assms tag_char_not_nl [of a] tag_char_not_nl [of b]
  by (auto simp: tagged_def nl_def)

lemma split_nl_append:
  assumes "nl \<notin> set l"
  shows "split_nl (l @ nl # Z) = l # split_nl Z"
  using assms by (induction l) auto

lemma join_nl_Cons: "join_nl ((x # l) # ls) = x # join_nl (l # ls)"
  by (cases ls) simp_all

lemma join_nl_split_nl: "join_nl (split_nl s) = s"
proof (induction s)
  case Nil
  then show ?case by simp
next
  case (Cons x xs)
  obtain l ls where sp: "split_nl xs = l # ls"
    using split_nl_not_Nil [of xs] by (cases "split_nl xs") auto
  with Cons show ?case by (simp add: join_nl_Cons)
qed

lemma parse_valid_response:
  assumes "tagless X" and "tagless Y" and "Y \<noteq> ''done''"
  shows "parse_response th
           (split_nl (tagged CHR ''r'' X CHR ''r'' @ tagged CHR ''c'' Y CHR ''c'' @ nl # Z)) =
         Action X Y (remove_fences Z)"
proof -
  let ?L = "tagged CHR ''r'' X CHR ''r'' @ tagged CHR ''c'' Y CHR ''c''"
  have r: "is_tag_char CHR ''r''" and c: "is_tag_char CHR ''c''"
    by (simp_all add: is_tag_char_def)
  have "nl \<notin> set ?L"
    using tagged_no_nl [OF r r tagless_no_nl [OF assms(1)]]
      tagged_no_nl [OF c c tagless_no_nl [OF assms(2)]] by simp
  then have sp: "split_nl (?L @ nl # Z) = ?L # split_nl Z"
    by (rule split_nl_append)
  have "findall ([] @ tagged CHR ''r'' X CHR ''r'' @ [] @ tagged CHR ''c'' Y CHR ''c'' @ []) =
          (CHR ''r'', X, CHR ''r'') # (CHR ''c'', Y, CHR ''c'') # findall []"
    using r r c c _ _ assms(1,2) by (rule findall_two_tags) simp_all
  then have f: "findall (hd (?L # split_nl Z)) =
          (CHR ''r'', X, CHR ''r'') # (CHR ''c'', Y, CHR ''c'') # []"
    by simp
  have "parse_response th (?L # split_nl Z) =
          Action (content (CHR ''r'', X, CHR ''r'')) (content (CHR ''c'', Y, CHR ''c''))
            (remove_fences (join_nl (tl (?L # split_nl Z))))"
    using f by (rule parse_response_Action) (simp add: content_def assms(3))
  then show ?thesis
    using sp by (simp add: content_def join_nl_split_nl)
qed

text \<open>
  Claim C2 adds that the last line is dropped when it contains \<open>done\<close>. The code tests
  for it, but assigns the shortened list to \<open>res_line\<close>, not to \<open>res_lines\<close>, and joins
  \<open>res_lines[1:]\<close>: the line stays. For the response \<open><r>list</r><c>execute_shell</c>\<close>,
  \<open>ls\<close>, \<open>done\<close> the test holds and the argument is \<open>ls\<close>, newline, \<open>done\<close>.
\<close>

theorem done_line_is_kept:
  "contains ''done''
     (last (split_nl (''<r>list</r><c>execute_shell</c>'' @ [nl] @ ''ls'' @ [nl] @ ''done'')))
   \<and> parse_response []
       (split_nl (''<r>list</r><c>execute_shell</c>'' @ [nl] @ ''ls'' @ [nl] @ ''done'')) =
     Action ''list'' ''execute_shell'' (''ls'' @ [nl] @ ''done'')"
  by code_simp

section \<open>Feedback at the confirmation prompt\<close>

text \<open>
  With the confirmation prompt enabled and a non-empty answer of the user, a command other
  than \<open>talk_to_user\<close> is not executed: the iteration records the abbreviated action
  with the observation \<open>declined_observation\<close> and continues. That observation is a
  fixed text, whatever the user typed.
\<close>

lemma step_declined:
  assumes "predict e (agent_model s) (PROMPT_format cfg (build_context cfg e s)) = Predicted r"
    and "parse_response (thought s) (split_nl r) = Action th c a"
    and "c \<noteq> ''talk_to_user''" and "PROMPT_USER cfg" and "input e confirm_prompt \<noteq> []"
  shows "step cfg e s =
     (Continue, s\<lparr>thought := th, observation := declined_observation\<rparr>,
      debug_print cfg ''CONTEXT:'' (build_context cfg e s) @
      debug_print cfg ''RAW RESPONSE:'' r @
      [Print (''MiniAGI: '' @ render_action th c (abbreviated_arg a)), Ask confirm_prompt,
       Summarize (summarized_history s @ [nl] @
                  new_memory (render_action th c (abbreviated_arg a)) declined_observation)
         (max_memory_item_size cfg) update_hint,
       Memorize (new_memory (render_action th c (abbreviated_arg a)) declined_observation)])"
  by (simp add: step_Predicted [OF assms(1)] respond_Action [OF assms(2)]
        perform_declined [OF assms(3,4,5)])

lemma list_example_parse:
  "parse_response [] (split_nl (''<r>list</r><c>execute_shell</c>'' @ [nl] @ ''ls'')) =
     Action ''list'' ''execute_shell'' ''ls''"
  by code_simp

lemma list_example_abbreviated: "abbreviated_arg ''ls'' = ''ls''"
  by code_simp

lemma stop_not_recorded: "\<not> contains ''stop'' declined_observation"
  by code_simp

text \<open>
  Claim C5 says that the feedback text becomes the observation. The string assigned in
  this branch is not an f-string, so its placeholder \<open>{user_input}\<close> is recorded as
  written and the feedback is not. Below the user answers \<open>stop\<close>: no handler starts,
  the loop continues, and the recorded observation does not contain \<open>stop\<close>.
\<close>

theorem declined_feedback_is_lost:
  "step (example_config True)
        (example_env (Predicted (''<r>list</r><c>execute_shell</c>'' @ [nl] @ ''ls'')) ''stop'' PNone)
        (initial_state ''gpt-4'') =
     (Continue,
      (initial_state ''gpt-4'')\<lparr>thought := ''list'', observation := declined_observation\<rparr>,
      [Print (''MiniAGI: '' @ render_action ''list'' ''execute_shell'' ''ls''), Ask confirm_prompt,
       Summarize
         ([nl] @ new_memory (render_action ''list'' ''execute_shell'' ''ls'') declined_observation)
         2000 update_hint,
       Memorize (new_memory (render_action ''list'' ''execute_shell'' ''ls'') declined_observation)])
   \<and> declined_observation =
       ''The user responded with: {user_input}'' @ [nl] @ ''Take this comment into consideration.''
   \<and> \<not> contains ''stop'' declined_observation"
proof -
  let ?r = "''<r>list</r><c>execute_shell</c>'' @ [nl] @ ''ls''"
  let ?e = "example_env (Predicted ?r) ''stop'' PNone"
  let ?s = "initial_state ''gpt-4''"
  have t: "thought ?s = []" and h: "summarized_history ?s = []"
    by (simp_all add: initial_state_def)
  have p: "parse_response (thought ?s) (split_nl ?r) = Action ''list'' ''execute_shell'' ''ls''"
    unfolding t by (rule list_example_parse)
  have c: "''execute_shell'' \<noteq> ''talk_to_user''" by simp
  have u: "PROMPT_USER (example_config True)" by (simp add: example_config_simps)
  have i: "input ?e confirm_prompt \<noteq> []" by (simp add: example_env_input)
  have "step (example_config True) ?e ?s =
     (Continue, ?s\<lparr>thought := ''list'', observation := declined_observation\<rparr>,
      [Print (''MiniAGI: '' @ render_action ''list'' ''execute_shell'' ''ls''), Ask confirm_prompt,
       Summarize
         ([nl] @ new_memory (render_action ''list'' ''execute_shell'' ''ls'') declined_observation)
         2000 update_hint,
       Memorize (new_memory (render_action ''list'' ''execute_shell'' ''ls'') declined_observation)])"
    unfolding step_declined [OF example_env_predict p c u i] list_example_abbreviated h
    by (simp add: debug_print_def example_config_simps)
  moreover have "declined_observation =
       ''The user responded with: {user_input}'' @ [nl] @ ''Take this comment into consideration.''"
    by (simp add: declined_observation_def)
  ultimately show ?thesis using stop_not_recorded by blast
qed

section \<open>The web search\<close>

text \<open>
  The statements that follow the dispatch, for a command that is carried out; and the web
  search when \<open>ddg\<close> returns \<open>None\<close> or a list: \<open>"OBSERVATION: " + observation\<close> raises
  \<open>TypeError\<close>, so the handler of the \<open>try\<close> runs.
\<close>

lemma step_executed:
  assumes "predict e (agent_model s) (PROMPT_format cfg (build_context cfg e s)) = Predicted r"
    and "parse_response (thought s) (split_nl r) = Action th c a"
    and "c \<noteq> ''talk_to_user''" and "\<not> PROMPT_USER cfg \<or> input e confirm_prompt = []"
  shows "step cfg e s =
     (case execute e cfg (s\<lparr>thought := th\<rparr>) c a (render_action th c a) of
        (out, s', evs) \<Rightarrow>
          (out, s',
           debug_print cfg ''CONTEXT:'' (build_context cfg e s) @
           debug_print cfg ''RAW RESPONSE:'' r @
           Print (''MiniAGI: '' @ render_action th c (abbreviated_arg a)) #
           (if PROMPT_USER cfg then [Ask confirm_prompt] else []) @ evs))"
  by (simp add: step_Predicted [OF assms(1)] respond_Action [OF assms(2)]
        perform_executed [OF assms(3,4)] split: prod.splits)

lemma execute_web_search_not_str:
  assumes "ddg e a 5 = Inr v" and "v = PNone \<or> v = PList l"
  shows "execute e cfg s ''web_search'' a action =
     (Continue, s\<lparr>observation := ''The command returned an error:'' @ [nl] @ type_error v @ [nl]\<rparr>,
      [Print ''SEARCH WEB'', Run Web_search a, PrintValue v] @
      (if v = PNone then [Print ''SEARCH FAILED''] else []) @
      (if contains ''context length'' (type_error v)
       then [Print (type_error v @ [nl] @
               ''Try decreasing MAX_CONTEXT_SIZE, MAX_MEMORY_ITEM_SIZE and SUMMARIZER_CHUNK_SIZE.'')]
       else []) @
      [Print (''Execution error: '' @ type_error v),
       Summarize (summarized_history s @ [nl] @
                  new_memory action (''The command returned an error:'' @ [nl] @ type_error v @ [nl]))
         (max_memory_item_size cfg) update_hint,
       Memorize (new_memory action (''The command returned an error:'' @ [nl] @ type_error v @ [nl]))])"
proof -
  have "dispatch e cfg ''web_search'' a (s, action) =
          (Returned v, (s, action),
           [Print ''SEARCH WEB'', Run Web_search a, PrintValue v] @
           (if v = PNone then [Print ''SEARCH FAILED''] else []))"
    using assms(1) by (simp add: dispatch_def)
  from execute_Returned_other [OF this assms(2)] show ?thesis
    by (simp add: on_exception_eq)
qed

lemma search_example_parse:
  "parse_response [] (split_nl (''<r>look</r><c>web_search</c>'' @ [nl] @ ''files'')) =
     Action ''look'' ''web_search'' ''files''"
  by code_simp

lemma search_example_abbreviated: "abbreviated_arg ''files'' = ''files''"
  by code_simp

lemma type_error_None:
  "type_error PNone =
     ''can only concatenate str (not '' @ [CHR 0x22] @ ''NoneType'' @ [CHR 0x22] @ '') to str''"
  by code_simp

lemma type_error_no_hint: "\<not> contains ''context length'' (type_error PNone)"
  by code_simp

text \<open>
  Claim C9 says that an empty result of the web search is reported but not treated as an
  error, and that the recorded observation renders the results. On the code, when \<open>ddg\<close>
  returns \<open>None\<close> the iteration prints \<open>SEARCH FAILED\<close> and then takes the path of a
  failed execution: it prints \<open>Execution error:\<close> and records the text of the
  \<open>TypeError\<close> as the observation.
\<close>

theorem empty_search_is_an_error:
  "step (example_config False)
        (example_env (Predicted (''<r>look</r><c>web_search</c>'' @ [nl] @ ''files'')) [] PNone)
        (initial_state ''gpt-4'') =
     (Continue,
      (initial_state ''gpt-4'')
        \<lparr>thought := ''look'',
          observation := ''The command returned an error:'' @ [nl] @ type_error PNone @ [nl]\<rparr>,
      [Print (''MiniAGI: '' @ render_action ''look'' ''web_search'' ''files''),
       Print ''SEARCH WEB'', Run Web_search ''files'', PrintValue PNone, Print ''SEARCH FAILED'',
       Print (''Execution error: '' @ type_error PNone),
       Summarize
         ([nl] @ new_memory (render_action ''look'' ''web_search'' ''files'')
                   (''The command returned an error:'' @ [nl] @ type_error PNone @ [nl]))
         2000 update_hint,
       Memorize
         (new_memory (render_action ''look'' ''web_search'' ''files'')
            (''The command returned an error:'' @ [nl] @ type_error PNone @ [nl]))])
   \<and> type_error PNone =
       ''can only concatenate str (not '' @ [CHR 0x22] @ ''NoneType'' @ [CHR 0x22] @ '') to str''"
proof -
  let ?r = "''<r>look</r><c>web_search</c>'' @ [nl] @ ''files''"
  let ?e = "example_env (Predicted ?r) [] PNone"
  let ?s = "initial_state ''gpt-4''"
  have t: "thought ?s = []" and h: "summarized_history ?s = []"
    by (simp_all add: initial_state_def)
  have p: "parse_response (thought ?s) (split_nl ?r) = Action ''look'' ''web_search'' ''files''"
    unfolding t by (rule search_example_parse)
  have c: "''web_search'' \<noteq> ''talk_to_user''" by simp
  have u: "\<not> PROMPT_USER (example_config False) \<or> input ?e confirm_prompt = []"
    by (simp add: example_config_simps)
  have v: "PNone = PNone \<or> PNone = PList []" by simp
  have "step (example_config False) ?e ?s =
     (Continue,
      ?s\<lparr>thought := ''look'',
          observation := ''The command returned an error:'' @ [nl] @ type_error PNone @ [nl]\<rparr>,
      [Print (''MiniAGI: '' @ render_action ''look'' ''web_search'' ''files''),
       Print ''SEARCH WEB'', Run Web_search ''files'', PrintValue PNone, Print ''SEARCH FAILED'',
       Print (''Execution error: '' @ type_error PNone),
       Summarize
         ([nl] @ new_memory (render_action ''look'' ''web_search'' ''files'')
                   (''The command returned an error:'' @ [nl] @ type_error PNone @ [nl]))
         2000 update_hint,
       Memorize
         (new_memory (render_action ''look'' ''web_search'' ''files'')
            (''The command returned an error:'' @ [nl] @ type_error PNone @ [nl]))])"
    unfolding step_executed [OF example_env_predict p c u]
      execute_web_search_not_str [OF example_env_ddg v] search_example_abbreviated
    using type_error_no_hint
    by (simp add: debug_print_def example_config_simps h del: contains.simps)
  with type_error_None show ?thesis by blast
qed

end
